theory Spec2Isabelle
  imports Main "HOL-Library.Word" "HOL-Library.Multiset" "HOL-Library.Char_ord"
    "HOL-Library.List_Lexorder" "HOL-Library.Code_Target_Nat"
begin

unbundle bit_operations_syntax

section \<open>Resource identifiers: posthog.ProjectID and posthog.ActionID\<close>

text \<open>
  \<open>ProjectID\<close> and \<open>ActionID\<close> are Go \<open>uint64\<close> values, rendered with
  \<open>strconv.FormatUint(_, 10)\<close> and read with \<open>strconv.ParseUint(_, 10, 64)\<close>.
  The two standard-library functions are written out here for base 10 and 64 bits.
  Go strings are byte strings; a byte is read through its code \<open>of_char c :: nat\<close>.
  The arithmetic of \<open>ParseUint\<close> is \<open>uint64\<close>: it is written on \<open>nat\<close> with the
  wrap-around \<open>mod 2 ^ 64\<close> spelled out where the source adds.
\<close>

type_synonym ProjectID = "64 word"
type_synonym ActionID = "64 word"

datatype num_error = ErrSyntax | ErrRange

text \<open>
  The error values of the program. \<open>NumError s e\<close> is \<open>strconv.NumError\<close> for the input
  \<open>s\<close>; the next three are built by \<open>parseImportID\<close>, the following five by
  \<open>Client.do\<close> (an unexpected status carries the expected code, the observed code and
  the response body), and \<open>ErrDeletingAction\<close> is the message of \<open>actionResource.Delete\<close>
  (it names the action and wraps the client's error).
\<close>

datatype error =
    NumError string num_error
  | ErrNotOfForm
  | ErrInvalidProjectID error
  | ErrInvalidActionID error
  | ErrMarshal
  | ErrNewRequest
  | ErrDoRequest
  | ErrUnexpectedStatus int int string
  | ErrDecode
  | ErrDeletingAction "64 word" error

definition maxUint64 :: nat where
  "maxUint64 = 2 ^ 64 - 1"

text \<open>\<open>cutoff = maxUint64/10 + 1\<close>: the least \<open>n\<close> with \<open>n * 10 > maxUint64\<close>.\<close>

definition cutoff :: nat where
  "cutoff = maxUint64 div 10 + 1"

text \<open>\<open>lower(c) = c | ('x' - 'X')\<close>.\<close>

definition lower :: "char \<Rightarrow> nat" where
  "lower c = (of_char c :: nat) OR 32"

text \<open>
  The \<open>switch\<close> of the parsing loop that turns a byte into a digit value; \<open>None\<close> is
  its \<open>default\<close> branch (a syntax error). The underscore case needs \<open>base == 0\<close> and
  is never taken for base 10.
\<close>

definition digit_of :: "char \<Rightarrow> nat option" where
  "digit_of c =
     (if 48 \<le> (of_char c :: nat) \<and> (of_char c :: nat) \<le> 57 then Some (of_char c - 48)
      else if 97 \<le> lower c \<and> lower c \<le> 122 then Some (lower c - 97 + 10)
      else None)"

text \<open>
  The loop \<open>for _, c := range []byte(s)\<close> with the running value \<open>n\<close>. As in Go the
  result is a pair: the value and the error; a syntax error comes with the value 0,
  a range error with \<open>maxVal = 1<<64 - 1\<close>.
\<close>

fun parse_loop :: "nat \<Rightarrow> string \<Rightarrow> nat \<times> num_error option" where
  "parse_loop n [] = (n, None)"
| "parse_loop n (c # cs) =
     (case digit_of c of
        None \<Rightarrow> (0, Some ErrSyntax)
      | Some d \<Rightarrow>
          if d \<ge> 10 then (0, Some ErrSyntax)
          else if n \<ge> cutoff then (maxUint64, Some ErrRange)
          else
            let n' = (n * 10) mod 2 ^ 64;
                n1 = (n' + d) mod 2 ^ 64
            in if n1 < n' \<or> n1 > maxUint64 then (maxUint64, Some ErrRange)
               else parse_loop n1 cs)"

definition ParseUint :: "string \<Rightarrow> nat \<times> error option" where
  "ParseUint s =
     (if s = [] then (0, Some (NumError s ErrSyntax))
      else case parse_loop 0 s of (n, e) \<Rightarrow> (n, map_option (NumError s) e))"

text \<open>\<open>strconv.FormatUint(i, 10)\<close>: the decimal digits, most significant first.\<close>

definition digit_char :: "nat \<Rightarrow> char" where
  "digit_char d = char_of (48 + d)"

fun FormatUint :: "nat \<Rightarrow> string" where
  "FormatUint n =
     (if n < 10 then [digit_char n] else FormatUint (n div 10) @ [digit_char (n mod 10)])"

declare FormatUint.simps [simp del]

definition ProjectID_String :: "ProjectID \<Rightarrow> string" where
  "ProjectID_String i = FormatUint (unat i)"

definition ProjectIDFromString :: "string \<Rightarrow> ProjectID \<times> error option" where
  "ProjectIDFromString s = (case ParseUint s of (res, err) \<Rightarrow> (word_of_nat res, err))"

definition ActionID_String :: "ActionID \<Rightarrow> string" where
  "ActionID_String i = FormatUint (unat i)"

definition ActionIDFromString :: "string \<Rightarrow> ActionID \<times> error option" where
  "ActionIDFromString s = (case ParseUint s of (res, err) \<Rightarrow> (word_of_nat res, err))"

text \<open>
  Vocabulary for statements about identifiers: a decimal digit, its value, the number a
  digit string denotes (continuing from \<open>n\<close>), and the digit strings with no
  superfluous leading zero.
\<close>

definition is_digit :: "char \<Rightarrow> bool" where
  "is_digit c = (48 \<le> (of_char c :: nat) \<and> (of_char c :: nat) \<le> 57)"

definition digit_val :: "char \<Rightarrow> nat" where
  "digit_val c = of_char c - 48"

definition decimal_value :: "nat \<Rightarrow> string \<Rightarrow> nat" where
  "decimal_value n s = foldl (\<lambda>a c. a * 10 + digit_val c) n s"

definition canonical :: "string \<Rightarrow> bool" where
  "canonical s = (s \<noteq> [] \<and> list_all is_digit s \<and> (s = ''0'' \<or> hd s \<noteq> CHR ''0''))"

section \<open>The API client: internal/posthog/api.go\<close>

text \<open>
  A Go slice is \<open>None\<close> when it is \<open>nil\<close> and \<open>Some xs\<close> otherwise: the two differ
  in the JSON the client sends (\<open>null\<close> against \<open>[]\<close>). \<open>elems\<close> are the elements a
  \<open>range\<close> loop visits, \<open>append1 s x\<close> is \<open>append(s, x)\<close> and \<open>append_all s xs\<close> is
  \<open>append(s, xs...)\<close>, which returns \<open>s\<close> itself when there is nothing to add.
\<close>

type_synonym 'a slice = "'a list option"

definition elems :: "'a slice \<Rightarrow> 'a list" where
  "elems s = (case s of None \<Rightarrow> [] | Some xs \<Rightarrow> xs)"

definition append1 :: "'a slice \<Rightarrow> 'a \<Rightarrow> 'a slice" where
  "append1 s x = Some (elems s @ [x])"

definition append_all :: "'a slice \<Rightarrow> 'a list \<Rightarrow> 'a slice" where
  "append_all s xs = (if xs = [] then s else Some (elems s @ xs))"

record http_request =
  req_Method :: string
  req_URL :: string
  req_Body :: "string option"
  req_Header :: "(string \<times> string) list"

record http_response =
  res_StatusCode :: int
  res_Body :: string

text \<open>
  \<open>HTTPClient\<close> is the transport: \<open>None\<close> is its error return. The response body is
  the text \<open>io.ReadAll\<close> obtains from it.
\<close>

record Client =
  HTTPClient :: "http_request \<Rightarrow> http_response option"
  Host :: string
  APIKey :: string

text \<open>
  \<open>Input\<close> is \<open>None\<close> for a nil input. \<open>Output\<close> tells whether a destination was
  given: every caller that gives one passes the address of a nil pointer variable
  \<open>res\<close>, and the value of \<open>res\<close> after the call is part of the model's result.
\<close>

record 'i apiRequest =
  Method :: string
  Path :: string
  ExpectedCode :: int
  Input :: "'i option"
  Output :: bool
  OutputNilIf404 :: bool

text \<open>
  The standard library the client calls, as parameters: \<open>json.Marshal\<close> of the input
  type (\<open>None\<close>: an error), whether \<open>http.NewRequestWithContext\<close> accepts the URL
  (the methods are the constants POST, PATCH, GET and DELETE), and the decoding of a
  JSON text into a fresh value of the output struct (\<open>None\<close>: an error).
\<close>

record ('i, 'o) stdlib =
  json_Marshal :: "'i \<Rightarrow> string option"
  url_Parse_ok :: "string \<Rightarrow> bool"
  json_Unmarshal :: "string \<Rightarrow> 'o option"

text \<open>
  \<open>json.NewDecoder(body).Decode(&res)\<close> for a pointer variable \<open>res\<close>: the JSON text
  \<open>null\<close> sets the pointer to nil and calls no unmarshaller, which is what the source
  relies on in its 404 branch ("output will be nil"); any other text is decoded into a
  fresh struct. The outer \<open>None\<close> is a decoding error.
\<close>

definition Decode :: "(string \<Rightarrow> 'o option) \<Rightarrow> string \<Rightarrow> 'o option option" where
  "Decode unmarshal b = (if b = ''null'' then Some None else map_option Some (unmarshal b))"

text \<open>
  \<open>Client.do\<close>, in the order of the source: the input is marshalled, the request is
  built with its headers, the transport is called, the status decides the text to
  decode, and the text is decoded when an output was asked for.
\<close>

definition marshalInput :: "('i, 'o) stdlib \<Rightarrow> 'i apiRequest \<Rightarrow> string option option" where
  "marshalInput lib r =
     (case Input r of
        None \<Rightarrow> Some None
      | Some i \<Rightarrow> (case json_Marshal lib i of None \<Rightarrow> None | Some j \<Rightarrow> Some (Some j)))"

definition newRequest :: "Client \<Rightarrow> 'i apiRequest \<Rightarrow> string option \<Rightarrow> http_request" where
  "newRequest c r body =
     \<lparr> req_Method = Method r,
       req_URL = Host c @ ''/api'' @ Path r,
       req_Body = body,
       req_Header =
         (if body \<noteq> None then [(''Content-Type'', ''application/json'')] else []) @
         (if Output r then [(''Accept'', ''application/json'')] else []) @
         [(''Authorization'', ''Bearer '' @ APIKey c)] \<rparr>"

definition responseBody :: "'i apiRequest \<Rightarrow> http_response \<Rightarrow> error + string" where
  "responseBody r res =
     (if OutputNilIf404 r \<and> res_StatusCode res = 404 then Inr ''null''
      else if res_StatusCode res \<noteq> ExpectedCode r
      then Inl (ErrUnexpectedStatus (ExpectedCode r) (res_StatusCode res) (res_Body res))
      else Inr (res_Body res))"

definition decodeOutput :: "('i, 'o) stdlib \<Rightarrow> 'i apiRequest \<Rightarrow> string \<Rightarrow> error + 'o option" where
  "decodeOutput lib r b =
     (if Output r
      then (case Decode (json_Unmarshal lib) b of None \<Rightarrow> Inl ErrDecode | Some v \<Rightarrow> Inr v)
      else Inr None)"

text \<open>
  The result is the list of requests handed to the transport, and either the error or
  the final value of the caller's \<open>res\<close> (\<open>None\<close>: nil).
\<close>

definition do :: "('i, 'o) stdlib \<Rightarrow> Client \<Rightarrow> 'i apiRequest \<Rightarrow> http_request list \<times> (error + 'o option)" where
  "do lib c r =
     (case marshalInput lib r of
        None \<Rightarrow> ([], Inl ErrMarshal)
      | Some body \<Rightarrow>
          if \<not> url_Parse_ok lib (Host c @ ''/api'' @ Path r) then ([], Inl ErrNewRequest)
          else
            let req = newRequest c r body
            in case HTTPClient c req of
                 None \<Rightarrow> ([req], Inl ErrDoRequest)
               | Some res \<Rightarrow>
                   (case responseBody r res of
                      Inl err \<Rightarrow> ([req], Inl err)
                    | Inr b \<Rightarrow> ([req], decodeOutput lib r b)))"

section \<open>Actions and projects of the API (package posthog)\<close>

text \<open>\<open>time.Time\<close> is kept as a number; 0 is the zero time.\<close>

type_synonym Time = int

text \<open>\<open>TextMatching\<close> is a Go string type: the API may send any text.\<close>

type_synonym TextMatching = string

record CreateActionStepRequest =
  cas_Event :: string
  cas_URL :: string
  cas_URLMatching :: TextMatching
  cas_Text :: string
  cas_TextMatching :: TextMatching
  cas_Href :: string
  cas_HrefMatching :: TextMatching
  cas_Selector :: string

record CreateActionRequest =
  car_Name :: string
  car_Description :: string
  car_Tags :: "string slice"
  car_PostToSlack :: bool
  car_SlackMessageFormat :: string
  car_Steps :: "CreateActionStepRequest slice"

record ActionStep =
  step_ID :: string
  step_Event :: string
  step_URL :: string
  step_URLMatching :: TextMatching
  step_Text :: string
  step_TextMatching :: TextMatching
  step_Href :: string
  step_HrefMatching :: TextMatching
  step_Selector :: string

record Action =
  act_ID :: ActionID
  act_Name :: string
  act_Description :: string
  act_Tags :: "string slice"
  act_PostToSlack :: bool
  act_SlackMessageFormat :: string
  act_Steps :: "ActionStep slice"
  act_Deleted :: bool
  act_IsCalculating :: bool
  act_CreatedAt :: Time
  act_LastCalculatedAt :: Time

definition nilSliceToEmpty :: "'a slice \<Rightarrow> 'a slice" where
  "nilSliceToEmpty v = (if v = None then Some [] else v)"

text \<open>
  \<open>url.PathEscape\<close>: every byte is kept or written as a percent sign and two upper-case
  hexadecimal digits; \<open>shouldEscape\<close> is the standard library's test for a path segment.
\<close>

definition shouldEscape :: "char \<Rightarrow> bool" where
  "shouldEscape c =
     (let n = (of_char c :: nat) in
      if (97 \<le> n \<and> n \<le> 122) \<or> (65 \<le> n \<and> n \<le> 90) \<or> (48 \<le> n \<and> n \<le> 57) then False
      else if c \<in> set ''-_.~'' then False
      else if c \<in> set ''$&+,/:;=?@'' then c = CHR ''/'' \<or> c = CHR '';'' \<or> c = CHR '','' \<or> c = CHR ''?''
      else True)"

definition upperhex :: "nat \<Rightarrow> char" where
  "upperhex d = ''0123456789ABCDEF'' ! d"

definition PathEscape :: "string \<Rightarrow> string" where
  "PathEscape s =
     concat (map (\<lambda>c. if shouldEscape c
                       then [CHR ''%'', upperhex ((of_char c :: nat) div 16), upperhex ((of_char c :: nat) mod 16)]
                       else [c]) s)"

definition CreateAction ::
  "(CreateActionRequest, Action) stdlib \<Rightarrow> Client \<Rightarrow> ProjectID \<Rightarrow> CreateActionRequest \<Rightarrow>
   http_request list \<times> (error + Action option)" where
  "CreateAction lib c projectID a0 =
     (let a1 = a0\<lparr>car_Tags := nilSliceToEmpty (car_Tags a0)\<rparr>;
          a = a1\<lparr>car_Steps := nilSliceToEmpty (car_Steps a1)\<rparr>
      in do lib c \<lparr> Method = ''POST'',
                     Path = ''/projects/'' @ PathEscape (ProjectID_String projectID) @ ''/actions'',
                     ExpectedCode = 201,
                     Input = Some a,
                     Output = True,
                     OutputNilIf404 = False \<rparr>)"


definition GetAction ::
  "('i, Action) stdlib \<Rightarrow> Client \<Rightarrow> ProjectID \<Rightarrow> ActionID \<Rightarrow>
   http_request list \<times> (error + Action option)" where
  "GetAction lib c projectID actionID =
     do lib c \<lparr> Method = ''GET'',
                 Path = ''/projects/'' @ PathEscape (ProjectID_String projectID) @
                        ''/actions/'' @ PathEscape (ActionID_String actionID),
                 ExpectedCode = 200,
                 Input = None,
                 Output = True,
                 OutputNilIf404 = True \<rparr>"

type_synonym ProjectToolbarMode = string

definition ProjectToolbarModeDisabled :: ProjectToolbarMode where
  "ProjectToolbarModeDisabled = ''disabled''"

definition ProjectToolbarModeToolbar :: ProjectToolbarMode where
  "ProjectToolbarModeToolbar = ''toolbar''"

type_synonym ProjectSessionRecordingVersion = string

definition ProjectSessionRecordingVersionV1 :: ProjectSessionRecordingVersion where
  "ProjectSessionRecordingVersionV1 = ''v1''"

definition ProjectSessionRecordingVersionV2 :: ProjectSessionRecordingVersion where
  "ProjectSessionRecordingVersionV2 = ''v2''"

record CreateProjectRequest =
  cpr_Name :: string
  cpr_AutocaptureOptOut :: bool
  cpr_Timezone :: string
  cpr_AppURLs :: "string slice"
  cpr_DataAttributes :: "string slice"
  cpr_PersonDisplayNameProperties :: "string slice"
  cpr_SlackIncomingWebhook :: string
  cpr_AnonymizeIPs :: bool
  cpr_ToolbarMode :: ProjectToolbarMode
  cpr_CapturePerformanceOptIn :: bool
  cpr_CaptureConsoleLogOptIn :: bool
  cpr_SessionRecordingOptIn :: bool
  cpr_SessionRecordingVersion :: ProjectSessionRecordingVersion
  cpr_RecordingDomains :: "string slice"
  cpr_AccessControl :: bool
  cpr_CompletedSnippetOnboarding :: bool

record Project =
  prj_ID :: ProjectID
  prj_Name :: string
  prj_AutocaptureOptOut :: bool
  prj_Timezone :: string
  prj_AppURLs :: "string slice"
  prj_DataAttributes :: "string slice"
  prj_PersonDisplayNameProperties :: "string slice"
  prj_SlackIncomingWebhook :: string
  prj_AnonymizeIPs :: bool
  prj_ToolbarMode :: ProjectToolbarMode
  prj_CapturePerformanceOptIn :: bool
  prj_CaptureConsoleLogOptIn :: bool
  prj_SessionRecordingOptIn :: bool
  prj_SessionRecordingVersion :: ProjectSessionRecordingVersion
  prj_RecordingDomains :: "string slice"
  prj_AccessControl :: bool
  prj_APIToken :: string
  prj_CompletedSnippetOnboarding :: bool
  prj_CreatedAt :: Time
  prj_UpdatedAt :: Time

text \<open>
  \<open>Project.UnmarshalJSON\<close>: \<open>raw\<close> is \<open>json.Unmarshal\<close> into the method-free copy
  \<open>rawProject\<close> of the struct (\<open>None\<close>: its error), then the toolbar mode is filled in.
\<close>

definition Project_UnmarshalJSON :: "(string \<Rightarrow> Project option) \<Rightarrow> string \<Rightarrow> Project option" where
  "Project_UnmarshalJSON raw b =
     (case raw b of
        None \<Rightarrow> None
      | Some p \<Rightarrow>
          Some (if prj_ToolbarMode p = [] then p\<lparr>prj_ToolbarMode := ProjectToolbarModeToolbar\<rparr>
                else p))"

text \<open>
  The library as the project calls see it: decoding into a \<open>Project\<close> goes through
  its \<open>UnmarshalJSON\<close> method.
\<close>

definition project_lib :: "('i, Project) stdlib \<Rightarrow> ('i, Project) stdlib" where
  "project_lib lib = lib\<lparr>json_Unmarshal := Project_UnmarshalJSON (json_Unmarshal lib)\<rparr>"

definition CreateProject ::
  "(CreateProjectRequest, Project) stdlib \<Rightarrow> Client \<Rightarrow> CreateProjectRequest \<Rightarrow>
   http_request list \<times> (error + Project option)" where
  "CreateProject lib c p0 =
     (let p1 = p0\<lparr>cpr_AppURLs := nilSliceToEmpty (cpr_AppURLs p0)\<rparr>;
          p2 = p1\<lparr>cpr_DataAttributes := nilSliceToEmpty (cpr_DataAttributes p1)\<rparr>;
          p3 = p2\<lparr>cpr_PersonDisplayNameProperties := nilSliceToEmpty (cpr_PersonDisplayNameProperties p2)\<rparr>;
          p = p3\<lparr>cpr_RecordingDomains := nilSliceToEmpty (cpr_RecordingDomains p3)\<rparr>
      in do (project_lib lib) c
            \<lparr> Method = ''POST'',
              Path = ''/projects/'',
              ExpectedCode = 201,
              Input = Some p,
              Output = True,
              OutputNilIf404 = False \<rparr>)"

definition GetProject ::
  "('i, Project) stdlib \<Rightarrow> Client \<Rightarrow> ProjectID \<Rightarrow> http_request list \<times> (error + Project option)" where
  "GetProject lib c projectID =
     do (project_lib lib) c
        \<lparr> Method = ''GET'',
          Path = ''/projects/'' @ PathEscape (ProjectID_String projectID),
          ExpectedCode = 200,
          Input = None,
          Output = True,
          OutputNilIf404 = True \<rparr>"

section \<open>The provider (package provider)\<close>

text \<open>
  Values of the Terraform plugin framework, as far as the provider uses them: a
  \<open>types.String\<close>, \<open>types.Bool\<close> or \<open>types.List\<close> is null (\<open>None\<close>) or known;
  unknown values do not occur in a stored state or in an API reply. \<open>ValueString\<close>
  and \<open>ValueBool\<close> give the zero value for null. \<open>ListValueFrom\<close> turns a nil slice
  into the null list and \<open>ElementsAs\<close> the null list into a nil slice; on these element
  types (strings and the three match objects) neither reports a diagnostic, so the
  early returns that follow them in the source are never taken and are left out.
\<close>

type_synonym tf_String = "string option"
type_synonym tf_Bool = "bool option"
type_synonym 'a tf_List = "'a list option"

definition StringValue :: "string \<Rightarrow> tf_String" where
  "StringValue s = Some s"

definition ValueString :: "tf_String \<Rightarrow> string" where
  "ValueString v = (case v of None \<Rightarrow> [] | Some s \<Rightarrow> s)"

definition BoolValue :: "bool \<Rightarrow> tf_Bool" where
  "BoolValue b = Some b"


definition ListValueFrom :: "'a slice \<Rightarrow> 'a tf_List" where
  "ListValueFrom s = s"

definition ElementsAs :: "'a tf_List \<Rightarrow> 'a slice" where
  "ElementsAs l = l"

text \<open>A diagnostic: the summary and the error whose text is the detail.\<close>

datatype diagnostic = ErrorDiagnostic string error

type_synonym Diagnostics = "diagnostic list"

definition HasError :: "Diagnostics \<Rightarrow> bool" where
  "HasError diags = (diags \<noteq> [])"

record matchableValue =
  Value :: string
  Matching :: TextMatching

record matchCustomEvent =
  ce_ID :: string
  ce_Event :: string

record matchPageViewEvent =
  pv_ID :: string
  pv_URL :: matchableValue

record matchAutocaptureEvent =
  ac_ID :: string
  ac_URL :: matchableValue
  ac_ElementText :: matchableValue
  ac_LinkHref :: matchableValue
  ac_Selector :: string

record actionResourceModel =
  arm_ID :: tf_String
  arm_ProjectID :: tf_String
  arm_Name :: tf_String
  arm_Description :: tf_String
  arm_Tags :: "string tf_List"
  arm_PostToWebhook :: tf_Bool
  arm_WebhookMessageFormat :: tf_String
  arm_MatchCustomEvents :: "matchCustomEvent tf_List"
  arm_MatchPageViews :: "matchPageViewEvent tf_List"
  arm_MatchAutocaptures :: "matchAutocaptureEvent tf_List"

record projectResourceModel =
  prm_ID :: tf_String
  prm_Name :: tf_String
  prm_DisableAutocapture :: tf_Bool
  prm_Timezone :: tf_String
  prm_AuthorizedURLs :: "string tf_List"
  prm_DataAttributes :: "string tf_List"
  prm_PersonDisplayNameProperties :: "string tf_List"
  prm_WebhookURL :: tf_String
  prm_AnonymizeIPs :: tf_Bool
  prm_EnableToolbar :: tf_Bool
  prm_RecordUserSessions :: tf_Bool
  prm_CaptureConsoleLogs :: tf_Bool
  prm_CaptureNetworkPerformance :: tf_Bool
  prm_UseSessionRecorderV2 :: tf_Bool
  prm_AuthorizedSessionRecordingURLs :: "string tf_List"
  prm_EnableAccessControl :: tf_Bool
  prm_APIToken :: tf_String

text \<open>
  \<open>sort.Strings\<close> sorts in place by Go's string order, which compares byte by byte;
  that is the lexicographic order of \<open>char list\<close> over the order of the byte codes.
  The sorted arrangement of a list under a linear order is unique, so the library's
  \<open>sort\<close> stands for it.
\<close>

definition sort_Strings :: "string slice \<Rightarrow> string slice" where
  "sort_Strings s = map_option sort s"

definition sortedStrings :: "string slice \<Rightarrow> string slice" where
  "sortedStrings strs = sort_Strings (append_all None (elems strs))"

text \<open>
  The loop of \<open>updateActionModel\<close> over \<open>apiAction.Steps\<close>, with the three slices it
  appends to.
\<close>

fun partition_steps ::
  "ActionStep list \<Rightarrow>
   matchCustomEvent slice \<times> matchPageViewEvent slice \<times> matchAutocaptureEvent slice \<Rightarrow>
   matchCustomEvent slice \<times> matchPageViewEvent slice \<times> matchAutocaptureEvent slice" where
  "partition_steps [] acc = acc"
| "partition_steps (ev # rest) (matchCustomEventSteps, matchPageViewEventSteps, matchAutocaptureEventSteps) =
     (if step_Event ev = ''$autocapture'' then
        partition_steps rest
          (matchCustomEventSteps, matchPageViewEventSteps,
           append1 matchAutocaptureEventSteps
             \<lparr> ac_ID = step_ID ev,
               ac_URL = \<lparr>Value = step_URL ev, Matching = step_URLMatching ev\<rparr>,
               ac_ElementText = \<lparr>Value = step_Text ev, Matching = step_TextMatching ev\<rparr>,
               ac_LinkHref = \<lparr>Value = step_Href ev, Matching = step_HrefMatching ev\<rparr>,
               ac_Selector = step_Selector ev \<rparr>)
      else if step_Event ev = ''$pageview'' then
        partition_steps rest
          (matchCustomEventSteps,
           append1 matchPageViewEventSteps
             \<lparr> pv_ID = step_ID ev,
               pv_URL = \<lparr>Value = step_URL ev, Matching = step_URLMatching ev\<rparr> \<rparr>,
           matchAutocaptureEventSteps)
      else
        partition_steps rest
          (append1 matchCustomEventSteps \<lparr>ce_ID = step_ID ev, ce_Event = step_Event ev\<rparr>,
           matchPageViewEventSteps, matchAutocaptureEventSteps))"

definition updateActionModel :: "actionResourceModel \<Rightarrow> Action \<Rightarrow> actionResourceModel" where
  "updateActionModel model apiAction =
     (case partition_steps (elems (act_Steps apiAction)) (None, None, None) of
        (matchCustomEventSteps, matchPageViewEventSteps, matchAutocaptureEventSteps) \<Rightarrow>
          model\<lparr> arm_ID := StringValue (ActionID_String (act_ID apiAction)),
                 arm_Name := StringValue (act_Name apiAction),
                 arm_Description := StringValue (act_Description apiAction),
                 arm_Tags := ListValueFrom (sortedStrings (act_Tags apiAction)),
                 arm_MatchCustomEvents := ListValueFrom matchCustomEventSteps,
                 arm_MatchPageViews := ListValueFrom matchPageViewEventSteps,
                 arm_MatchAutocaptures := ListValueFrom matchAutocaptureEventSteps,
                 arm_PostToWebhook := BoolValue (act_PostToSlack apiAction),
                 arm_WebhookMessageFormat := StringValue (act_SlackMessageFormat apiAction) \<rparr>)"

text \<open>The zero value \<open>posthog.Action{}\<close>.\<close>

definition zero_Action :: Action where
  "zero_Action =
     \<lparr> act_ID = 0, act_Name = [], act_Description = [], act_Tags = None,
       act_PostToSlack = False, act_SlackMessageFormat = [], act_Steps = None,
       act_Deleted = False, act_IsCalculating = False, act_CreatedAt = 0,
       act_LastCalculatedAt = 0 \<rparr>"

definition customEventStep :: "matchCustomEvent \<Rightarrow> ActionStep" where
  "customEventStep ev =
     \<lparr> step_ID = ce_ID ev, step_Event = ce_Event ev, step_URL = [], step_URLMatching = [],
       step_Text = [], step_TextMatching = [], step_Href = [], step_HrefMatching = [],
       step_Selector = [] \<rparr>"

definition pageViewStep :: "matchPageViewEvent \<Rightarrow> ActionStep" where
  "pageViewStep ev =
     \<lparr> step_ID = pv_ID ev, step_Event = ''$pageview'', step_URL = Value (pv_URL ev),
       step_URLMatching = Matching (pv_URL ev),
       step_Text = [], step_TextMatching = [], step_Href = [], step_HrefMatching = [],
       step_Selector = [] \<rparr>"

definition autocaptureStep :: "matchAutocaptureEvent \<Rightarrow> ActionStep" where
  "autocaptureStep ev =
     \<lparr> step_ID = ac_ID ev, step_Event = ''$autocapture'', step_URL = Value (ac_URL ev),
       step_URLMatching = Matching (ac_URL ev),
       step_Text = Value (ac_ElementText ev), step_TextMatching = Matching (ac_ElementText ev),
       step_Href = Value (ac_LinkHref ev), step_HrefMatching = Matching (ac_LinkHref ev),
       step_Selector = ac_Selector ev \<rparr>"

text \<open>
  \<open>actionFromModel\<close>; the three \<open>for\<close> loops append to \<open>action.Steps\<close> in turn, each
  step literal of the source being one of the three functions above.
\<close>

definition actionFromModel :: "actionResourceModel \<Rightarrow> ProjectID \<times> Action \<times> Diagnostics" where
  "actionFromModel data =
     (case ProjectIDFromString (ValueString (arm_ProjectID data)) of
        (projectID, Some err) \<Rightarrow> (0, zero_Action, [ErrorDiagnostic ''Invalid project ID'' err])
      | (projectID, None) \<Rightarrow>
          (case ActionIDFromString (ValueString (arm_ID data)) of
             (actionID, Some err) \<Rightarrow> (0, zero_Action, [ErrorDiagnostic ''Invalid action ID'' err])
           | (actionID, None) \<Rightarrow>
               let action0 = zero_Action\<lparr> act_ID := actionID,
                                          act_Name := ValueString (arm_Name data),
                                          act_Description := ValueString (arm_Description data) \<rparr>;
                   action1 = action0\<lparr>act_Tags := ElementsAs (arm_Tags data)\<rparr>;
                   matchCustomEvents = ElementsAs (arm_MatchCustomEvents data);
                   steps1 = foldl (\<lambda>steps ev. append1 steps (customEventStep ev))
                              (act_Steps action1) (elems matchCustomEvents);
                   matchPageViewEvents = ElementsAs (arm_MatchPageViews data);
                   steps2 = foldl (\<lambda>steps ev. append1 steps (pageViewStep ev))
                              steps1 (elems matchPageViewEvents);
                   matchAutocaptureEvents = ElementsAs (arm_MatchAutocaptures data);
                   steps3 = foldl (\<lambda>steps ev. append1 steps (autocaptureStep ev))
                              steps2 (elems matchAutocaptureEvents)
               in (projectID, action1\<lparr>act_Steps := steps3\<rparr>, [])))"


text \<open>
  \<open>strings.SplitN(s, sep, 2)\<close> for a separator of one byte: \<open>cut\<close> finds the first
  separator (\<open>strings.Index\<close>) and gives the text before it and the text after it.
\<close>

fun cut :: "char \<Rightarrow> string \<Rightarrow> (string \<times> string) option" where
  "cut sep [] = None"
| "cut sep (c # cs) =
     (if c = sep then Some ([], cs)
      else case cut sep cs of None \<Rightarrow> None | Some (before, after) \<Rightarrow> Some (c # before, after))"

definition SplitN2 :: "string \<Rightarrow> char \<Rightarrow> string list" where
  "SplitN2 s sep = (case cut sep s of None \<Rightarrow> [s] | Some (before, after) \<Rightarrow> [before, after])"

definition parseImportID :: "string \<Rightarrow> ProjectID \<times> ActionID \<times> error option" where
  "parseImportID s =
     (let tokens = SplitN2 s CHR ''/'' in
      if length tokens \<noteq> 2 then (0, 0, Some ErrNotOfForm)
      else case ProjectIDFromString (tokens ! 0) of
             (projectID, Some err) \<Rightarrow> (0, 0, Some (ErrInvalidProjectID err))
           | (projectID, None) \<Rightarrow>
               (case ActionIDFromString (tokens ! 1) of
                  (actionID, Some err) \<Rightarrow> (0, 0, Some (ErrInvalidActionID err))
                | (actionID, None) \<Rightarrow> (projectID, actionID, None)))"

text \<open>
  The state of an import response, as the attributes written so far.
  \<open>State.SetAttribute\<close> of a string at a root attribute stores it and reports nothing.
\<close>

type_synonym tf_State = "string \<rightharpoonup> string"

definition actionResource_ImportState :: "string \<Rightarrow> tf_State \<Rightarrow> tf_State \<times> Diagnostics" where
  "actionResource_ImportState reqID state =
     (case parseImportID reqID of
        (projectID, actionID, err) \<Rightarrow>
          let diags = (case err of
                         Some e \<Rightarrow> [ErrorDiagnostic ''Invalid import ID'' e]
                       | None \<Rightarrow> []);
              state1 = state(''id'' \<mapsto> ActionID_String actionID)
          in if HasError diags then (state1, diags)
             else (state1(''project_id'' \<mapsto> ProjectID_String projectID), diags))"

definition projectResource_ImportState :: "string \<Rightarrow> tf_State \<Rightarrow> tf_State \<times> Diagnostics" where
  "projectResource_ImportState reqID state =
     (case ProjectIDFromString reqID of
        (projectID, err) \<Rightarrow>
          let diags = (case err of
                         Some e \<Rightarrow> [ErrorDiagnostic ''Invalid project ID'' e]
                       | None \<Rightarrow> [])
          in (state(''id'' \<mapsto> ProjectID_String projectID), diags))"

definition updateProjectModel :: "projectResourceModel \<Rightarrow> Project \<Rightarrow> projectResourceModel" where
  "updateProjectModel model apiProject =
     model\<lparr> prm_ID := StringValue (ProjectID_String (prj_ID apiProject)),
            prm_Name := StringValue (prj_Name apiProject),
            prm_DisableAutocapture := BoolValue (prj_AutocaptureOptOut apiProject),
            prm_Timezone := StringValue (prj_Timezone apiProject),
            prm_AuthorizedURLs := ListValueFrom (sortedStrings (prj_AppURLs apiProject)),
            prm_DataAttributes := ListValueFrom (sortedStrings (prj_DataAttributes apiProject)),
            prm_PersonDisplayNameProperties :=
              ListValueFrom (sortedStrings (prj_PersonDisplayNameProperties apiProject)),
            prm_WebhookURL := StringValue (prj_SlackIncomingWebhook apiProject),
            prm_AnonymizeIPs := BoolValue (prj_AnonymizeIPs apiProject),
            prm_EnableToolbar := BoolValue (prj_ToolbarMode apiProject = ProjectToolbarModeToolbar),
            prm_RecordUserSessions := BoolValue (prj_SessionRecordingOptIn apiProject),
            prm_CaptureConsoleLogs := BoolValue (prj_CaptureConsoleLogOptIn apiProject),
            prm_CaptureNetworkPerformance := BoolValue (prj_CapturePerformanceOptIn apiProject),
            prm_UseSessionRecorderV2 :=
              BoolValue (prj_SessionRecordingVersion apiProject = ProjectSessionRecordingVersionV2),
            prm_AuthorizedSessionRecordingURLs :=
              ListValueFrom (sortedStrings (prj_RecordingDomains apiProject)),
            prm_EnableAccessControl := BoolValue (prj_AccessControl apiProject),
            prm_APIToken := StringValue (prj_APIToken apiProject) \<rparr>"

section \<open>Vocabulary for the statements about steps\<close>

text \<open>
  The ordering convention of the flat step list: custom events first, then page views,
  then autocaptures. \<open>kept_fields\<close> names the fields of a step that the provider's three
  match objects have room for: a custom event keeps its id and event name, a page view
  also its URL matcher, an autocapture everything.
\<close>

definition step_rank :: "ActionStep \<Rightarrow> nat" where
  "step_rank s =
     (if step_Event s = ''$autocapture'' then 2 else if step_Event s = ''$pageview'' then 1 else 0)"

definition follows_convention :: "ActionStep list \<Rightarrow> bool" where
  "follows_convention steps = sorted (map step_rank steps)"

definition kept_fields :: "ActionStep \<Rightarrow> ActionStep" where
  "kept_fields s =
     (if step_Event s = ''$autocapture'' then s
      else if step_Event s = ''$pageview'' then
        s\<lparr> step_Text := [], step_TextMatching := [], step_Href := [], step_HrefMatching := [],
           step_Selector := [] \<rparr>
      else
        s\<lparr> step_URL := [], step_URLMatching := [], step_Text := [], step_TextMatching := [],
           step_Href := [], step_HrefMatching := [], step_Selector := [] \<rparr>)"

text \<open>The steps of the action that \<open>actionFromModel\<close> rebuilds from \<open>updateActionModel\<close>.\<close>

definition steps_round_trip :: "actionResourceModel \<Rightarrow> Action \<Rightarrow> ActionStep list" where
  "steps_round_trip model apiAction =
     (case actionFromModel (updateActionModel model apiAction) of
        (projectID, action, diags) \<Rightarrow> elems (act_Steps action))"

section \<open>Sample values for the worked instances\<close>

text \<open>
  A transport that answers every request with the given status and body, a library
  that accepts every URL, the project of the reply \<open>{"id":1,"name":"t","toolbar_mode":""}\<close>,
  a stored action model (project 42, action 5, one custom event) and three steps.
\<close>

definition sample_client :: "int \<Rightarrow> string \<Rightarrow> Client" where
  "sample_client status body =
     \<lparr> HTTPClient = (\<lambda>req. Some \<lparr>res_StatusCode = status, res_Body = body\<rparr>),
       Host = ''https://app.posthog.com'',
       APIKey = ''phx'' \<rparr>"

definition sample_lib :: "('i \<Rightarrow> string option) \<Rightarrow> (string \<Rightarrow> 'o option) \<Rightarrow> ('i, 'o) stdlib" where
  "sample_lib m u = \<lparr>json_Marshal = m, url_Parse_ok = (\<lambda>url. True), json_Unmarshal = u\<rparr>"



definition sample_create_project :: CreateProjectRequest where
  "sample_create_project =
     \<lparr> cpr_Name = ''t'', cpr_AutocaptureOptOut = False, cpr_Timezone = ''UTC'',
       cpr_AppURLs = None, cpr_DataAttributes = Some [''data-attr''],
       cpr_PersonDisplayNameProperties = None, cpr_SlackIncomingWebhook = [],
       cpr_AnonymizeIPs = False, cpr_ToolbarMode = ''toolbar'',
       cpr_CapturePerformanceOptIn = False, cpr_CaptureConsoleLogOptIn = False,
       cpr_SessionRecordingOptIn = True, cpr_SessionRecordingVersion = ''v1'',
       cpr_RecordingDomains = None, cpr_AccessControl = False,
       cpr_CompletedSnippetOnboarding = True \<rparr>"

definition sample_create_action :: CreateActionRequest where
  "sample_create_action =
     \<lparr> car_Name = ''signup'', car_Description = [], car_Tags = None, car_PostToSlack = False,
       car_SlackMessageFormat = [], car_Steps = None \<rparr>"

definition sample_model :: actionResourceModel where
  "sample_model =
     \<lparr> arm_ID = Some ''5'', arm_ProjectID = Some ''42'', arm_Name = Some ''signup'',
       arm_Description = Some [], arm_Tags = None, arm_PostToWebhook = Some False,
       arm_WebhookMessageFormat = Some [],
       arm_MatchCustomEvents = Some [\<lparr>ce_ID = ''1'', ce_Event = ''signed_up''\<rparr>],
       arm_MatchPageViews = None, arm_MatchAutocaptures = None \<rparr>"

definition sample_custom_step :: ActionStep where
  "sample_custom_step =
     \<lparr> step_ID = ''1'', step_Event = ''signed_up'', step_URL = [], step_URLMatching = [],
       step_Text = [], step_TextMatching = [], step_Href = [], step_HrefMatching = [],
       step_Selector = [] \<rparr>"

definition sample_pageview_step :: ActionStep where
  "sample_pageview_step =
     \<lparr> step_ID = ''2'', step_Event = ''$pageview'', step_URL = ''/contacts'',
       step_URLMatching = ''contains'',
       step_Text = [], step_TextMatching = [], step_Href = [], step_HrefMatching = [],
       step_Selector = [] \<rparr>"

definition sample_autocapture_step :: ActionStep where
  "sample_autocapture_step =
     \<lparr> step_ID = ''3'', step_Event = ''$autocapture'', step_URL = ''/signup'',
       step_URLMatching = ''contains'', step_Text = ''Sign up'', step_TextMatching = ''exact'',
       step_Href = [], step_HrefMatching = [], step_Selector = ''.button'' \<rparr>"

definition sample_action :: "ActionStep list \<Rightarrow> Action" where
  "sample_action steps = zero_Action\<lparr>act_ID := 5, act_Name := ''signup'', act_Steps := Some steps\<rparr>"

section \<open>Decimal digits: facts about ParseUint and FormatUint\<close>

lemma digit_of_digit: "is_digit c \<Longrightarrow> digit_of c = Some (digit_val c)"
  by (simp add: digit_of_def is_digit_def digit_val_def)

lemma digit_val_lt: "is_digit c \<Longrightarrow> digit_val c < 10"
  by (auto simp add: is_digit_def digit_val_def)

lemma parse_loop_nondigit: "\<not> is_digit c \<Longrightarrow> parse_loop n (c # cs) = (0, Some ErrSyntax)"
  by (auto simp add: digit_of_def is_digit_def split: option.splits)

lemma decimal_value_ge: "n \<le> decimal_value n s"
  unfolding decimal_value_def
proof (induction s arbitrary: n)
  case Nil show ?case by simp
next
  case (Cons c cs)
  have "n \<le> n * 10 + digit_val c" by simp
  also have "\<dots> \<le> foldl (\<lambda>a c. a * 10 + digit_val c) (n * 10 + digit_val c) cs" by (rule Cons.IH)
  finally show ?case by simp
qed

lemma decimal_value_Cons: "decimal_value n (c # cs) = decimal_value (n * 10 + digit_val c) cs"
  by (simp add: decimal_value_def)

lemma decimal_value_snoc: "decimal_value n (cs @ [c]) = decimal_value n cs * 10 + digit_val c"
  by (simp add: decimal_value_def)

lemma parse_loop_ok:
  "list_all is_digit s \<Longrightarrow> decimal_value n s < 2 ^ 64 \<Longrightarrow> parse_loop n s = (decimal_value n s, None)"
proof (induction s arbitrary: n)
  case Nil
  show ?case by (simp add: decimal_value_def)
next
  case (Cons c cs)
  let ?d = "digit_val c"
  from Cons.prems have dig: "is_digit c" and rest: "list_all is_digit cs" by simp_all
  have dlt: "?d < 10" using dig by (rule digit_val_lt)
  have "n * 10 + ?d \<le> decimal_value (n * 10 + ?d) cs" by (rule decimal_value_ge)
  with Cons.prems(2) have small: "n * 10 + ?d < 2 ^ 64" by (simp add: decimal_value_Cons)
  then have ncut: "\<not> n \<ge> cutoff" by (simp add: cutoff_def maxUint64_def)
  from small have m1: "(n * 10) mod 2 ^ 64 = n * 10" by simp
  from small have m2: "(n * 10 + ?d) mod 2 ^ 64 = n * 10 + ?d" by simp
  have "parse_loop n (c # cs) = parse_loop (n * 10 + ?d) cs"
    using dlt ncut small by (simp add: digit_of_digit [OF dig] m1 m2 Let_def maxUint64_def)
  also have "\<dots> = (decimal_value (n * 10 + ?d) cs, None)"
    using rest Cons.prems(2) by (intro Cons.IH) (simp_all add: decimal_value_Cons)
  finally show ?case by (simp add: decimal_value_Cons)
qed

lemma of_char_digit_char: "d < 10 \<Longrightarrow> (of_char (digit_char d) :: nat) = 48 + d"
  by (simp add: digit_char_def)

lemma is_digit_digit_char: "d < 10 \<Longrightarrow> is_digit (digit_char d)"
  by (simp add: is_digit_def of_char_digit_char)

lemma digit_val_digit_char: "d < 10 \<Longrightarrow> digit_val (digit_char d) = d"
  by (simp add: digit_val_def of_char_digit_char)

lemma digit_char_digit_val: "is_digit c \<Longrightarrow> digit_char (digit_val c) = c"
  by (simp add: digit_char_def digit_val_def is_digit_def)

lemma FormatUint_digits: "list_all is_digit (FormatUint n)"
proof (induction n rule: FormatUint.induct)
  case (1 n)
  show ?case
  proof (cases "n < 10")
    case True
    then show ?thesis by (simp add: FormatUint.simps [of n] is_digit_digit_char)
  next
    case False
    then show ?thesis using 1 by (simp add: FormatUint.simps [of n] is_digit_digit_char)
  qed
qed

lemma FormatUint_value: "decimal_value 0 (FormatUint n) = n"
proof (induction n rule: FormatUint.induct)
  case (1 n)
  show ?case
  proof (cases "n < 10")
    case True
    then show ?thesis by (simp add: FormatUint.simps [of n] decimal_value_def digit_val_digit_char)
  next
    case False
    then show ?thesis using 1
      by (simp add: FormatUint.simps [of n] decimal_value_snoc digit_val_digit_char)
  qed
qed

lemma FormatUint_nonempty: "FormatUint n \<noteq> []"
  by (subst FormatUint.simps) simp

lemma ParseUint_FormatUint: "n < 2 ^ 64 \<Longrightarrow> ParseUint (FormatUint n) = (n, None)"
  using parse_loop_ok [of "FormatUint n" 0]
  by (simp add: ParseUint_def FormatUint_nonempty FormatUint_digits FormatUint_value)

lemma parse_loop_None:
  "parse_loop n s = (r, None) \<Longrightarrow> list_all is_digit s \<and> r = decimal_value n s"
proof (induction s arbitrary: n)
  case Nil
  then show ?case by (simp add: decimal_value_def)
next
  case (Cons c cs)
  have dig: "is_digit c"
  proof (rule ccontr)
    assume "\<not> is_digit c"
    then have "parse_loop n (c # cs) = (0, Some ErrSyntax)" by (rule parse_loop_nondigit)
    with Cons.prems show False by simp
  qed
  let ?d = "digit_val c"
  have dlt: "?d < 10" using dig by (rule digit_val_lt)
  from Cons.prems dlt have ncut: "n < cutoff"
    by (auto simp add: digit_of_digit [OF dig] Let_def split: if_splits)
  then have "n \<le> 1844674407370955161" by (simp add: cutoff_def maxUint64_def)
  then have "n * 10 \<le> 1844674407370955161 * 10" by (rule mult_le_mono1)
  then have n10: "n * 10 \<le> 18446744073709551610" by simp
  then have m1: "(n * 10) mod 18446744073709551616 = n * 10" by simp
  from Cons.prems dlt ncut have nowrap: "\<not> (n * 10 + ?d) mod 2 ^ 64 < n * 10"
    by (auto simp add: digit_of_digit [OF dig] Let_def m1 split: if_splits)
  have small: "n * 10 + ?d < 2 ^ 64"
  proof (rule ccontr)
    assume "\<not> n * 10 + ?d < 2 ^ 64"
    then have ge: "(2 ^ 64 :: nat) \<le> n * 10 + ?d" by simp
    then have "(n * 10 + ?d) mod 2 ^ 64 = (n * 10 + ?d - 2 ^ 64) mod 2 ^ 64"
      by (rule le_mod_geq)
    also have "\<dots> = n * 10 + ?d - 2 ^ 64" using n10 dlt by simp
    also have "\<dots> < n * 10" using ge dlt by simp
    finally show False using nowrap by simp
  qed
  from small have m2: "(n * 10 + ?d) mod 18446744073709551616 = n * 10 + ?d" by simp
  from Cons.prems dlt ncut have "parse_loop (n * 10 + ?d) cs = (r, None)"
    by (simp add: digit_of_digit [OF dig] Let_def m1 m2 split: if_splits)
  then have "list_all is_digit cs \<and> r = decimal_value (n * 10 + ?d) cs" by (rule Cons.IH)
  with dig show ?case by (simp add: decimal_value_Cons)
qed

lemma parse_loop_bound: "n < 2 ^ 64 \<Longrightarrow> fst (parse_loop n s) < 2 ^ 64"
proof (induction s arbitrary: n)
  case Nil then show ?case by simp
next
  case (Cons c cs)
  have "((n * 10) mod 2 ^ 64 + d) mod 2 ^ 64 < (2 ^ 64 :: nat)" for d by simp
  then show ?case using Cons.IH
    by (auto simp add: Let_def maxUint64_def split: option.splits)
qed

lemma is_digit_zero_iff: "is_digit c \<Longrightarrow> digit_val c = 0 \<longleftrightarrow> c = CHR ''0''"
proof
  assume d: "is_digit c" and "digit_val c = 0"
  then have "(of_char c :: nat) = of_char CHR ''0''" by (simp add: is_digit_def digit_val_def)
  then show "c = CHR ''0''" by (simp only: of_char_eq_iff)
next
  assume "c = CHR ''0''" then show "digit_val c = 0" by (simp add: digit_val_def)
qed

lemma digit_char_zero_iff: "d < 10 \<Longrightarrow> digit_char d = CHR ''0'' \<longleftrightarrow> d = 0"
  using is_digit_zero_iff [OF is_digit_digit_char, of d] by (simp add: digit_val_digit_char)

lemma decimal_value_pos:
  "s \<noteq> [] \<Longrightarrow> list_all is_digit s \<Longrightarrow> hd s \<noteq> CHR ''0'' \<Longrightarrow> 0 < decimal_value 0 s"
proof -
  assume "s \<noteq> []" "list_all is_digit s" "hd s \<noteq> CHR ''0''"
  then obtain c cs where s: "s = c # cs" and d: "is_digit c" and nz: "c \<noteq> CHR ''0''"
    by (cases s) auto
  from d nz have "0 < digit_val c" using is_digit_zero_iff [of c] by auto
  also have "digit_val c \<le> decimal_value (digit_val c) cs" by (rule decimal_value_ge)
  finally show ?thesis by (simp add: s decimal_value_Cons)
qed

lemma FormatUint_decimal_value:
  "s \<noteq> [] \<Longrightarrow> list_all is_digit s \<Longrightarrow> s = ''0'' \<or> hd s \<noteq> CHR ''0'' \<Longrightarrow>
   FormatUint (decimal_value 0 s) = s"
proof (induction s rule: rev_induct)
  case Nil
  then show ?case by simp
next
  case (snoc c cs)
  from snoc.prems have dig: "is_digit c" and digs: "list_all is_digit cs" by simp_all
  have dlt: "digit_val c < 10" using dig by (rule digit_val_lt)
  show ?case
  proof (cases "cs = []")
    case True
    then show ?thesis using dlt dig
      by (simp add: decimal_value_def FormatUint.simps [of "digit_val c"] digit_char_digit_val)
  next
    case False
    with snoc.prems(3) have hd: "hd cs \<noteq> CHR ''0''" by auto
    have pos: "0 < decimal_value 0 cs" using False digs hd by (rule decimal_value_pos)
    have IH: "FormatUint (decimal_value 0 cs) = cs" using False digs hd by (intro snoc.IH) simp_all
    let ?v = "decimal_value 0 cs * 10 + digit_val c"
    have "\<not> ?v < 10" using pos by simp
    then have "FormatUint ?v = FormatUint (?v div 10) @ [digit_char (?v mod 10)]"
      by (subst FormatUint.simps) simp
    also have "?v div 10 = decimal_value 0 cs" using dlt by simp
    also have "?v mod 10 = digit_val c" using dlt by simp
    finally show ?thesis using IH dig by (simp add: decimal_value_snoc digit_char_digit_val)
  qed
qed

lemma FormatUint_canonical: "canonical (FormatUint n)"
proof -
  have "FormatUint n = ''0'' \<or> hd (FormatUint n) \<noteq> CHR ''0''"
  proof (induction n rule: FormatUint.induct)
    case (1 n)
    show ?case
    proof (cases "n < 10")
      case True
      then show ?thesis using digit_char_zero_iff [OF True]
        by (auto simp add: FormatUint.simps [of n])
    next
      case False
      then have "n div 10 \<noteq> 0" by simp
      have ne: "FormatUint (n div 10) \<noteq> []" by (rule FormatUint_nonempty)
      have "FormatUint (n div 10) \<noteq> ''0''"
      proof
        assume "FormatUint (n div 10) = ''0''"
        then have "decimal_value 0 (FormatUint (n div 10)) = decimal_value 0 ''0''" by simp
        then have "n div 10 = 0" by (simp add: FormatUint_value) (simp add: decimal_value_def digit_val_def)
        with False show False by simp
      qed
      with 1 False have "hd (FormatUint (n div 10)) \<noteq> CHR ''0''" by simp
      with ne False show ?thesis by (simp add: FormatUint.simps [of n])
    qed
  qed
  then show ?thesis by (simp add: canonical_def FormatUint_nonempty FormatUint_digits)
qed

lemma ParseUint_ok_iff:
  "ParseUint s = (n, None) \<longleftrightarrow> s \<noteq> [] \<and> list_all is_digit s \<and> decimal_value 0 s = n \<and> n < 2 ^ 64"
proof
  assume a: "ParseUint s = (n, None)"
  then have ne: "s \<noteq> []" by (auto simp add: ParseUint_def split: if_splits)
  with a have p: "parse_loop 0 s = (n, None)"
    by (auto simp add: ParseUint_def split: prod.splits)
  from parse_loop_bound [of 0 s] p have "n < 2 ^ 64" by simp
  with parse_loop_None [OF p] ne
  show "s \<noteq> [] \<and> list_all is_digit s \<and> decimal_value 0 s = n \<and> n < 2 ^ 64" by simp
next
  assume "s \<noteq> [] \<and> list_all is_digit s \<and> decimal_value 0 s = n \<and> n < 2 ^ 64"
  then show "ParseUint s = (n, None)"
    using parse_loop_ok [of s 0] by (simp add: ParseUint_def)
qed

lemma ParseUint_accepts_iff:
  "snd (ParseUint s) = None \<longleftrightarrow> s \<noteq> [] \<and> list_all is_digit s \<and> decimal_value 0 s < 2 ^ 64"
proof -
  have "snd (ParseUint s) = None \<longleftrightarrow> (\<exists>n. ParseUint s = (n, None))"
    by (cases "ParseUint s") auto
  then show ?thesis by (auto simp add: ParseUint_ok_iff)
qed

lemma word_of_nat_FormatUint:
  "ParseUint (FormatUint (unat (i :: 64 word))) = (unat i, None)"
proof -
  have "unat i < 2 ^ 64" using unsigned_less [of i] by simp
  then show ?thesis by (rule ParseUint_FormatUint)
qed

lemma FormatUint_ParseUint:
  assumes "ParseUint s = (n, None)"
  shows "FormatUint (unat (word_of_nat n :: 64 word)) = s \<longleftrightarrow> canonical s"
proof -
  from assms have n: "s \<noteq> []" "list_all is_digit s" "decimal_value 0 s = n" "n < 2 ^ 64"
    by (simp_all add: ParseUint_ok_iff)
  then have u: "unat (word_of_nat n :: 64 word) = n" by (simp add: unat_of_nat)
  show ?thesis
  proof
    assume "FormatUint (unat (word_of_nat n :: 64 word)) = s"
    then show "canonical s" using FormatUint_canonical [of n] by (simp add: u)
  next
    assume "canonical s"
    then show "FormatUint (unat (word_of_nat n :: 64 word)) = s"
      using n FormatUint_decimal_value [of s] by (simp add: u canonical_def)
  qed
qed

section \<open>Claim C4: the identifier round trip\<close>

text \<open>
  C4. For every 64-bit identifier, parsing its decimal rendering gives the identifier back,
  for projects and for actions. A string that the parser accepts is given back by
  rendering the parsed identifier exactly when it is canonical, that is when it has no
  superfluous leading zero. The parser accepts exactly the non-empty strings of decimal
  digits whose value is below \<open>2 ^ 64\<close>; in particular it reports a syntax error on
  \<open>abc\<close>, \<open>-1\<close> and \<open>12a\<close> and a range error on \<open>18446744073709551616\<close>.
\<close>

theorem identifier_round_trip:
  "ProjectIDFromString (ProjectID_String i) = (i, None) \<and>
   ActionIDFromString (ActionID_String i) = (i, None) \<and>
   (ProjectIDFromString s = (j, None) \<longrightarrow> (ProjectID_String j = s \<longleftrightarrow> canonical s)) \<and>
   (ActionIDFromString s = (j, None) \<longrightarrow> (ActionID_String j = s \<longleftrightarrow> canonical s)) \<and>
   (snd (ProjectIDFromString s) = None \<longleftrightarrow>
      s \<noteq> [] \<and> list_all is_digit s \<and> decimal_value 0 s < 2 ^ 64) \<and>
   (snd (ActionIDFromString s) = None \<longleftrightarrow>
      s \<noteq> [] \<and> list_all is_digit s \<and> decimal_value 0 s < 2 ^ 64) \<and>
   snd (ProjectIDFromString ''abc'') = Some (NumError ''abc'' ErrSyntax) \<and>
   snd (ProjectIDFromString ''-1'') = Some (NumError ''-1'' ErrSyntax) \<and>
   snd (ProjectIDFromString ''12a'') = Some (NumError ''12a'' ErrSyntax) \<and>
   snd (ProjectIDFromString ''18446744073709551616'') =
     Some (NumError ''18446744073709551616'' ErrRange) \<and>
   snd (ActionIDFromString ''abc'') = Some (NumError ''abc'' ErrSyntax) \<and>
   snd (ActionIDFromString ''-1'') = Some (NumError ''-1'' ErrSyntax) \<and>
   snd (ActionIDFromString ''12a'') = Some (NumError ''12a'' ErrSyntax) \<and>
   snd (ActionIDFromString ''18446744073709551616'') =
     Some (NumError ''18446744073709551616'' ErrRange)"
proof -
  have fmt: "ProjectIDFromString (ProjectID_String i) = (i, None)"
    "ActionIDFromString (ActionID_String i) = (i, None)"
    by (simp_all add: ProjectIDFromString_def ProjectID_String_def ActionIDFromString_def
        ActionID_String_def word_of_nat_FormatUint)
  have rev_dir: "ProjectIDFromString s = (j, None) \<longrightarrow> (ProjectID_String j = s \<longleftrightarrow> canonical s)"
    "ActionIDFromString s = (j, None) \<longrightarrow> (ActionID_String j = s \<longleftrightarrow> canonical s)"
    using FormatUint_ParseUint [of s]
    by (auto simp add: ProjectIDFromString_def ProjectID_String_def ActionIDFromString_def
        ActionID_String_def split: prod.splits)
  have exs: "snd (ProjectIDFromString t) = snd (ParseUint t)"
    "snd (ActionIDFromString t) = snd (ParseUint t)" for t
    by (cases "ParseUint t"; simp add: ProjectIDFromString_def ActionIDFromString_def)+
  have acc: "snd (ProjectIDFromString s) = None \<longleftrightarrow>
      s \<noteq> [] \<and> list_all is_digit s \<and> decimal_value 0 s < 2 ^ 64"
    "snd (ActionIDFromString s) = None \<longleftrightarrow>
      s \<noteq> [] \<and> list_all is_digit s \<and> decimal_value 0 s < 2 ^ 64"
    by (simp_all only: exs ParseUint_accepts_iff)
  have ex: "snd (ParseUint ''abc'') = Some (NumError ''abc'' ErrSyntax)"
    "snd (ParseUint ''-1'') = Some (NumError ''-1'' ErrSyntax)"
    "snd (ParseUint ''12a'') = Some (NumError ''12a'' ErrSyntax)"
    "snd (ParseUint ''18446744073709551616'') = Some (NumError ''18446744073709551616'' ErrRange)"
    by (simp_all add: ParseUint_def digit_of_def lower_def cutoff_def maxUint64_def)
  show ?thesis using fmt rev_dir acc ex by (simp only: exs simp_thms)
qed

text \<open>The theorem at the identifier 42 and the string \<open>42\<close>.\<close>

theorem identifier_round_trip_witness:
  "ProjectIDFromString ''42'' = (42, None) \<and> ProjectID_String 42 = ''42'' \<and> canonical ''42'' \<and>
   ActionIDFromString ''42'' = (42, None) \<and> ActionID_String 42 = ''42''"
proof -
  have p: "ProjectIDFromString ''42'' = (42, None)" "ActionIDFromString ''42'' = (42, None)"
    by (simp_all add: ProjectIDFromString_def ActionIDFromString_def ParseUint_def digit_of_def
        cutoff_def maxUint64_def)
  have c: "canonical ''42''" by (simp add: canonical_def is_digit_def)
  from identifier_round_trip [of 42 "''42''" 42] p c show ?thesis by simp
qed

text \<open>
  The claim as first stated, with every accepted string given back unchanged, fails at
  \<open>007\<close>: it is accepted, and the identifier 7 is rendered as \<open>7\<close>.
\<close>

theorem leading_zero_not_restored:
  "ProjectIDFromString ''007'' = (7, None) \<and> ProjectID_String 7 \<noteq> ''007'' \<and>
   ActionIDFromString ''007'' = (7, None) \<and> ActionID_String 7 \<noteq> ''007''"
  by (simp add: ProjectIDFromString_def ActionIDFromString_def ParseUint_def digit_of_def
      cutoff_def maxUint64_def ProjectID_String_def ActionID_String_def FormatUint.simps [of 7])

section \<open>Facts about slices and sorting\<close>

lemma elems_simps [simp]: "elems None = []" "elems (Some xs) = xs"
  by (simp_all add: elems_def)

lemma sortedStrings_eq:
  "sortedStrings s = (if elems s = [] then None else Some (sort (elems s)))"
  by (simp add: sortedStrings_def sort_Strings_def append_all_def)

lemma elems_sortedStrings: "elems (sortedStrings s) = sort (elems s)"
  by (simp add: sortedStrings_eq)

lemma sort_eq_Nil_iff: "sort xs = [] \<longleftrightarrow> xs = []"
  by (metis length_sort length_0_conv)

section \<open>Claim C7: sorting as a normal form of tag and setting lists\<close>

text \<open>
  C7. The normalisation applied on the way from the API to the local model,
  \<open>sortedStrings\<close>, is idempotent and independent of the order of its input: two slices
  with the same elements in any order have the same result, and an already sorted list
  keeps its elements as they are. The result is sorted and has exactly the elements of
  the input. It is what \<open>updateActionModel\<close> stores as the tags and what
  \<open>updateProjectModel\<close> stores as the four list settings.
\<close>

theorem sortedStrings_normal_form:
  "sortedStrings (sortedStrings s) = sortedStrings s \<and>
   (mset (elems s) = mset (elems t) \<longrightarrow> sortedStrings s = sortedStrings t) \<and>
   (sorted (elems s) \<longrightarrow> elems (sortedStrings s) = elems s) \<and>
   sorted (elems (sortedStrings s)) \<and>
   mset (elems (sortedStrings s)) = mset (elems s) \<and>
   arm_Tags (updateActionModel am a) = sortedStrings (act_Tags a) \<and>
   prm_AuthorizedURLs (updateProjectModel pm p) = sortedStrings (prj_AppURLs p) \<and>
   prm_DataAttributes (updateProjectModel pm p) = sortedStrings (prj_DataAttributes p) \<and>
   prm_PersonDisplayNameProperties (updateProjectModel pm p) =
     sortedStrings (prj_PersonDisplayNameProperties p) \<and>
   prm_AuthorizedSessionRecordingURLs (updateProjectModel pm p) =
     sortedStrings (prj_RecordingDomains p)"
proof -
  have idem: "sortedStrings (sortedStrings s) = sortedStrings s"
    by (simp add: sortedStrings_eq sort_eq_Nil_iff sorted_sort_id)
  have perm: "mset (elems s) = mset (elems t) \<longrightarrow> sortedStrings s = sortedStrings t"
  proof
    assume m: "mset (elems s) = mset (elems t)"
    then have "sort (elems s) = sort (elems t)"
      by (intro properties_for_sort) simp_all
    moreover from m have "elems s = [] \<longleftrightarrow> elems t = []"
      by (metis mset_zero_iff)
    ultimately show "sortedStrings s = sortedStrings t" by (simp add: sortedStrings_eq)
  qed
  have noop: "sorted (elems s) \<longrightarrow> elems (sortedStrings s) = elems s"
    by (simp add: elems_sortedStrings sorted_sort_id)
  have props: "sorted (elems (sortedStrings s))" "mset (elems (sortedStrings s)) = mset (elems s)"
    by (simp_all add: elems_sortedStrings)
  have act: "arm_Tags (updateActionModel am a) = sortedStrings (act_Tags a)"
    by (simp add: updateActionModel_def ListValueFrom_def split: prod.splits)
  have prj: "prm_AuthorizedURLs (updateProjectModel pm p) = sortedStrings (prj_AppURLs p)"
    "prm_DataAttributes (updateProjectModel pm p) = sortedStrings (prj_DataAttributes p)"
    "prm_PersonDisplayNameProperties (updateProjectModel pm p) =
       sortedStrings (prj_PersonDisplayNameProperties p)"
    "prm_AuthorizedSessionRecordingURLs (updateProjectModel pm p) =
       sortedStrings (prj_RecordingDomains p)"
    by (simp_all add: updateProjectModel_def ListValueFrom_def)
  from idem perm noop props act prj show ?thesis by (intro conjI)
qed

text \<open>
  The theorem at the lists \<open>[b, a, B]\<close> and \<open>[B, b, a]\<close>, which sort to
  \<open>[B, a, b]\<close> in byte order, and at that sorted list.
\<close>

theorem sortedStrings_normal_form_witness:
  "mset (elems (Some [''b'', ''a'', ''B''])) = mset (elems (Some [''B'', ''b'', ''a''])) \<and>
   sortedStrings (Some [''b'', ''a'', ''B'']) = Some [''B'', ''a'', ''b''] \<and>
   sortedStrings (Some [''B'', ''b'', ''a'']) = Some [''B'', ''a'', ''b''] \<and>
   sorted (elems (Some [''B'', ''a'', ''b''])) \<and>
   elems (sortedStrings (Some [''B'', ''a'', ''b''])) = [''B'', ''a'', ''b'']"
proof -
  have m: "mset (elems (Some [''b'', ''a'', ''B''])) = mset (elems (Some [''B'', ''b'', ''a'']))"
    by simp
  have s: "sorted (elems (Some [''B'', ''a'', ''b'']))"
    by (simp add: less_eq_char_def)
  have v: "sortedStrings (Some [''b'', ''a'', ''B'']) = Some [''B'', ''a'', ''b'']"
    by (simp add: sortedStrings_eq less_eq_char_def less_char_def)
  have e: "sortedStrings (Some [''b'', ''a'', ''B'']) = sortedStrings (Some [''B'', ''b'', ''a''])"
    using sortedStrings_normal_form [of "Some [''b'', ''a'', ''B'']" "Some [''B'', ''b'', ''a'']"] m
    by blast
  have n: "elems (sortedStrings (Some [''B'', ''a'', ''b''])) = elems (Some [''B'', ''a'', ''b''])"
    using sortedStrings_normal_form [of "Some [''B'', ''a'', ''b'']"] s by blast
  from m s v e n show ?thesis by (simp only: elems_simps simp_thms)
qed

section \<open>Facts about Client.do\<close>

lemma do_sent:
  assumes "marshalInput lib r = Some body" and "url_Parse_ok lib (Host c @ ''/api'' @ Path r)"
  shows "fst (do lib c r) = [newRequest c r body]"
    and "snd (do lib c r) =
           (case HTTPClient c (newRequest c r body) of
              None \<Rightarrow> Inl ErrDoRequest
            | Some res \<Rightarrow>
                (case responseBody r res of Inl err \<Rightarrow> Inl err | Inr b \<Rightarrow> decodeOutput lib r b))"
  using assms by (simp_all add: do_def Let_def split: option.split sum.split)

lemma do_not_sent:
  "marshalInput lib r = None \<or> \<not> url_Parse_ok lib (Host c @ ''/api'' @ Path r) \<Longrightarrow>
   fst (do lib c r) = [] \<and> (\<exists>e. snd (do lib c r) = Inl e)"
  by (auto simp add: do_def split: option.split)

lemma do_requests_cases:
  obtains "fst (do lib c r) = []" and "\<exists>e. snd (do lib c r) = Inl e"
  | body where "marshalInput lib r = Some body" and "url_Parse_ok lib (Host c @ ''/api'' @ Path r)"
      and "fst (do lib c r) = [newRequest c r body]"
proof (cases "marshalInput lib r = None \<or> \<not> url_Parse_ok lib (Host c @ ''/api'' @ Path r)")
  case True
  from do_not_sent [OF True] that(1) show ?thesis by blast
next
  case False
  then obtain body where b: "marshalInput lib r = Some body"
    and u: "url_Parse_ok lib (Host c @ ''/api'' @ Path r)" by auto
  from that(2) [OF b u do_sent(1) [OF b u]] show ?thesis .
qed


lemma do_fst_singleton:
  assumes "fst (do lib c r) = [req]"
  obtains body where "marshalInput lib r = Some body"
    and "url_Parse_ok lib (Host c @ ''/api'' @ Path r)" and "req = newRequest c r body"
proof (cases rule: do_requests_cases [of lib c r])
  case 1
  with assms show ?thesis by simp
next
  case (2 body)
  with assms that show ?thesis by simp
qed

lemma do_unexpected_status:
  assumes "fst (do lib c r) = [req]" and "HTTPClient c req = Some res"
    and "res_StatusCode res \<noteq> ExpectedCode r"
    and "\<not> (OutputNilIf404 r \<and> res_StatusCode res = 404)"
  shows "snd (do lib c r) =
           Inl (ErrUnexpectedStatus (ExpectedCode r) (res_StatusCode res) (res_Body res))"
proof -
  from assms(1) obtain body where b: "marshalInput lib r = Some body"
    and u: "url_Parse_ok lib (Host c @ ''/api'' @ Path r)" and r: "req = newRequest c r body"
    by (rule do_fst_singleton)
  from assms(3,4) have "responseBody r res =
      Inl (ErrUnexpectedStatus (ExpectedCode r) (res_StatusCode res) (res_Body res))"
    by (auto simp add: responseBody_def)
  with do_sent(2) [OF b u] assms(2) r show ?thesis by simp
qed

lemma do_absent:
  assumes "fst (do lib c r) = [req]" and "HTTPClient c req = Some res"
    and "OutputNilIf404 r" and "res_StatusCode res = 404"
  shows "snd (do lib c r) = Inr None"
proof -
  from assms(1) obtain body where b: "marshalInput lib r = Some body"
    and u: "url_Parse_ok lib (Host c @ ''/api'' @ Path r)" and r: "req = newRequest c r body"
    by (rule do_fst_singleton)
  from assms(3,4) have "responseBody r res = Inr ''null''"
    by (simp add: responseBody_def)
  moreover have "decodeOutput lib r ''null'' = Inr None"
    by (simp add: decodeOutput_def Decode_def)
  ultimately show ?thesis using do_sent(2) [OF b u] assms(2) r by simp
qed

lemma PathEscape_digits: "list_all is_digit s \<Longrightarrow> PathEscape s = s"
proof (induction s)
  case Nil
  show ?case by (simp add: PathEscape_def)
next
  case (Cons c cs)
  then have "\<not> shouldEscape c" by (simp add: shouldEscape_def is_digit_def)
  with Cons show ?case by (simp add: PathEscape_def)
qed

lemma PathEscape_FormatUint [simp]: "PathEscape (FormatUint n) = FormatUint n"
  by (rule PathEscape_digits) (rule FormatUint_digits)

lemma FormatUint_samples:
  "FormatUint 0 = ''0''" "FormatUint 1 = ''1''" "FormatUint 5 = ''5''" "FormatUint 7 = ''7''"
  "FormatUint 42 = ''42''"
  "FormatUint 18446744073709551615 = ''18446744073709551615''"
  by code_simp+

lemma sample_get_action_request:
  "fst (GetAction (sample_lib (\<lambda>i :: unit. None) (\<lambda>b. None)) (sample_client status body) 42 5) =
     [\<lparr>req_Method = ''GET'', req_URL = ''https://app.posthog.com/api/projects/42/actions/5'',
       req_Body = None,
       req_Header = [(''Accept'', ''application/json''), (''Authorization'', ''Bearer phx'')]\<rparr>]"
  by (simp add: GetAction_def do_def marshalInput_def newRequest_def sample_lib_def
      sample_client_def ProjectID_String_def ActionID_String_def FormatUint_samples Let_def
      PathEscape_def shouldEscape_def split: sum.split)

lemma sample_get_project_request:
  "fst (GetProject (sample_lib (\<lambda>i :: unit. None) u) (sample_client status body) 42) =
     [\<lparr>req_Method = ''GET'', req_URL = ''https://app.posthog.com/api/projects/42'',
       req_Body = None,
       req_Header = [(''Accept'', ''application/json''), (''Authorization'', ''Bearer phx'')]\<rparr>]"
  by (simp add: GetProject_def do_def marshalInput_def newRequest_def sample_lib_def
      sample_client_def ProjectID_String_def FormatUint_samples project_lib_def Let_def
      PathEscape_def shouldEscape_def split: sum.split)

section \<open>Claim C9: a status mismatch is an error with the status and the body\<close>

text \<open>
  C9. Whenever a request was sent and answered, and the status of the answer differs
  from the expected code and is not a 404 that the request asked to read as absence,
  \<open>Client.do\<close> returns the error that carries the expected code, the observed code and
  the response body.
\<close>

theorem unexpected_status_is_error:
  "fst (do lib c r) = [req] \<and> HTTPClient c req = Some res \<and>
   res_StatusCode res \<noteq> ExpectedCode r \<and> \<not> (OutputNilIf404 r \<and> res_StatusCode res = 404) \<longrightarrow>
   snd (do lib c r) =
     Inl (ErrUnexpectedStatus (ExpectedCode r) (res_StatusCode res) (res_Body res))"
  using do_unexpected_status [of lib c r req res] by blast

text \<open>
  The theorem at a DELETE of project 1 that expects 204 and is answered with 500.
\<close>

theorem unexpected_status_is_error_witness:
  "fst (do (sample_lib (\<lambda>i :: unit. Some ''{}'') (\<lambda>b. Some ()))
          (sample_client 500 ''Server Error'')
          \<lparr>Method = ''DELETE'', Path = ''/projects/1'', ExpectedCode = 204, Input = None,
            Output = False, OutputNilIf404 = False\<rparr>) =
     [\<lparr>req_Method = ''DELETE'', req_URL = ''https://app.posthog.com/api/projects/1'',
       req_Body = None, req_Header = [(''Authorization'', ''Bearer phx'')]\<rparr>] \<and>
   snd (do (sample_lib (\<lambda>i :: unit. Some ''{}'') (\<lambda>b. Some ()))
          (sample_client 500 ''Server Error'')
          \<lparr>Method = ''DELETE'', Path = ''/projects/1'', ExpectedCode = 204, Input = None,
            Output = False, OutputNilIf404 = False\<rparr>) =
     Inl (ErrUnexpectedStatus 204 500 ''Server Error'')"
proof -
  let ?lib = "sample_lib (\<lambda>i :: unit. Some ''{}'') (\<lambda>b. Some ())"
  let ?c = "sample_client 500 ''Server Error''"
  let ?r = "\<lparr>Method = ''DELETE'', Path = ''/projects/1'', ExpectedCode = 204, Input = None,
            Output = False, OutputNilIf404 = False\<rparr> :: unit apiRequest"
  let ?req = "\<lparr>req_Method = ''DELETE'', req_URL = ''https://app.posthog.com/api/projects/1'',
       req_Body = None, req_Header = [(''Authorization'', ''Bearer phx'')]\<rparr>"
  let ?res = "\<lparr>res_StatusCode = 500, res_Body = ''Server Error''\<rparr>"
  have sent: "fst (do ?lib ?c ?r) = [?req]"
    by (simp add: do_def marshalInput_def newRequest_def sample_lib_def sample_client_def
        responseBody_def)
  have ans: "HTTPClient ?c ?req = Some ?res" by (simp add: sample_client_def)
  have st: "res_StatusCode ?res \<noteq> ExpectedCode ?r" by simp
  have nf: "\<not> (OutputNilIf404 ?r \<and> res_StatusCode ?res = 404)" by simp
  from unexpected_status_is_error [of ?lib ?c ?r ?req ?res] sent ans st nf
  have "snd (do ?lib ?c ?r) =
      Inl (ErrUnexpectedStatus (ExpectedCode ?r) (res_StatusCode ?res) (res_Body ?res))"
    by blast
  with sent show ?thesis by simp
qed

section \<open>Claim C2: a 404 on a read is absence, any other unexpected status an error\<close>

text \<open>
  C2. When the request of \<open>GetAction\<close> or of \<open>GetProject\<close> was sent and answered with
  status 404, the call returns a nil result and no error; when it was answered with a
  status that is neither 404 nor the expected 200, the call returns the unexpected
  status error.
\<close>

theorem read_404_is_absence:
  "(fst (GetAction lib c projectID actionID) = [req] \<and> HTTPClient c req = Some res \<longrightarrow>
      (res_StatusCode res = 404 \<longrightarrow> snd (GetAction lib c projectID actionID) = Inr None) \<and>
      (res_StatusCode res \<noteq> 404 \<and> res_StatusCode res \<noteq> 200 \<longrightarrow>
         snd (GetAction lib c projectID actionID) =
           Inl (ErrUnexpectedStatus 200 (res_StatusCode res) (res_Body res)))) \<and>
   (fst (GetProject plib c projectID) = [preq] \<and> HTTPClient c preq = Some pres \<longrightarrow>
      (res_StatusCode pres = 404 \<longrightarrow> snd (GetProject plib c projectID) = Inr None) \<and>
      (res_StatusCode pres \<noteq> 404 \<and> res_StatusCode pres \<noteq> 200 \<longrightarrow>
         snd (GetProject plib c projectID) =
           Inl (ErrUnexpectedStatus 200 (res_StatusCode pres) (res_Body pres))))"
proof -
  have a: "snd (GetAction lib c projectID actionID) = Inr None"
    if "fst (GetAction lib c projectID actionID) = [req]" "HTTPClient c req = Some res"
      "res_StatusCode res = 404"
    using that unfolding GetAction_def by (intro do_absent [where req = req and res = res]) simp_all
  have b: "snd (GetAction lib c projectID actionID) =
           Inl (ErrUnexpectedStatus 200 (res_StatusCode res) (res_Body res))"
    if "fst (GetAction lib c projectID actionID) = [req]" "HTTPClient c req = Some res"
      "res_StatusCode res \<noteq> 404" "res_StatusCode res \<noteq> 200"
    using that do_unexpected_status [where req = req and res = res and lib = lib and c = c
        and r = "\<lparr>Method = ''GET'',
                 Path = ''/projects/'' @ PathEscape (ProjectID_String projectID) @
                        ''/actions/'' @ PathEscape (ActionID_String actionID),
                 ExpectedCode = 200, Input = None, Output = True, OutputNilIf404 = True\<rparr>"]
    unfolding GetAction_def by simp
  have c: "snd (GetProject plib c projectID) = Inr None"
    if "fst (GetProject plib c projectID) = [preq]" "HTTPClient c preq = Some pres"
      "res_StatusCode pres = 404"
    using that unfolding GetProject_def by (intro do_absent [where req = preq and res = pres]) simp_all
  have d: "snd (GetProject plib c projectID) =
           Inl (ErrUnexpectedStatus 200 (res_StatusCode pres) (res_Body pres))"
    if "fst (GetProject plib c projectID) = [preq]" "HTTPClient c preq = Some pres"
      "res_StatusCode pres \<noteq> 404" "res_StatusCode pres \<noteq> 200"
    using that do_unexpected_status [where req = preq and res = pres and lib = "project_lib plib"
        and c = c
        and r = "\<lparr>Method = ''GET'',
                 Path = ''/projects/'' @ PathEscape (ProjectID_String projectID),
                 ExpectedCode = 200, Input = None, Output = True, OutputNilIf404 = True\<rparr>"]
    unfolding GetProject_def by simp
  from a b c d show ?thesis by blast
qed

text \<open>
  The theorem for action 5 of project 42 and for project 42, answered with 404 and
  with 403.
\<close>

theorem read_404_is_absence_witness:
  "snd (GetAction (sample_lib (\<lambda>i :: unit. None) (\<lambda>b. None)) (sample_client 404 ''Not found'') 42 5) =
     Inr None \<and>
   snd (GetAction (sample_lib (\<lambda>i :: unit. None) (\<lambda>b. None)) (sample_client 403 ''Forbidden'') 42 5) =
     Inl (ErrUnexpectedStatus 200 403 ''Forbidden'') \<and>
   snd (GetProject (sample_lib (\<lambda>i :: unit. None) (\<lambda>b. None)) (sample_client 404 ''Not found'') 42) =
     Inr None \<and>
   snd (GetProject (sample_lib (\<lambda>i :: unit. None) (\<lambda>b. None)) (sample_client 403 ''Forbidden'') 42) =
     Inl (ErrUnexpectedStatus 200 403 ''Forbidden'')"
proof -
  let ?lib = "sample_lib (\<lambda>i :: unit. None) (\<lambda>b. None) :: (unit, Action) stdlib"
  let ?plib = "sample_lib (\<lambda>i :: unit. None) (\<lambda>b. None) :: (unit, Project) stdlib"
  let ?gone = "sample_client 404 ''Not found''"
  let ?deny = "sample_client 403 ''Forbidden''"
  let ?req = "\<lparr>req_Method = ''GET'', req_URL = ''https://app.posthog.com/api/projects/42/actions/5'',
       req_Body = None,
       req_Header = [(''Accept'', ''application/json''), (''Authorization'', ''Bearer phx'')]\<rparr>"
  let ?preq = "\<lparr>req_Method = ''GET'', req_URL = ''https://app.posthog.com/api/projects/42'',
       req_Body = None,
       req_Header = [(''Accept'', ''application/json''), (''Authorization'', ''Bearer phx'')]\<rparr>"
  let ?r404 = "\<lparr>res_StatusCode = 404, res_Body = ''Not found''\<rparr>"
  let ?r403 = "\<lparr>res_StatusCode = 403, res_Body = ''Forbidden''\<rparr>"
  have ans: "HTTPClient ?gone q = Some ?r404" "HTTPClient ?deny q = Some ?r403" for q
    by (simp_all add: sample_client_def)
  note sa = sample_get_action_request and sp = sample_get_project_request
  from read_404_is_absence [where lib = ?lib and c = ?gone and projectID = 42 and actionID = 5
      and req = ?req and res = ?r404 and plib = ?plib and preq = ?preq and pres = ?r404]
    sa [of 404 "''Not found''"] sp [of "\<lambda>b. None" 404 "''Not found''"] ans(1)
  have gone: "snd (GetAction ?lib ?gone 42 5) = Inr None \<and> snd (GetProject ?plib ?gone 42) = Inr None"
    by simp
  from read_404_is_absence [where lib = ?lib and c = ?deny and projectID = 42 and actionID = 5
      and req = ?req and res = ?r403 and plib = ?plib and preq = ?preq and pres = ?r403]
    sa [of 403 "''Forbidden''"] sp [of "\<lambda>b. None" 403 "''Forbidden''"] ans(2)
  have deny: "snd (GetAction ?lib ?deny 42 5) = Inl (ErrUnexpectedStatus 200 403 ''Forbidden'') \<and>
      snd (GetProject ?plib ?deny 42) = Inl (ErrUnexpectedStatus 200 403 ''Forbidden'')"
    by simp
  from gone deny show ?thesis by blast
qed

section \<open>Claim C3: the toolbar mode of a decoded project\<close>



section \<open>Claim C8: create calls send empty lists, never null\<close>

text \<open>
  C8. \<open>CreateAction\<close> hands \<open>Client.do\<close> the request with its tag and step slices
  replaced by their elements as non-nil slices, and \<open>CreateProject\<close> does the same for
  the four list fields (app URLs, data attributes, person display-name properties,
  recording domains): a nil slice becomes the empty slice and a non-nil slice is passed
  through unchanged. Every request that is sent carries the JSON of that normalised
  value as its body.
\<close>

theorem create_sends_empty_lists:
  "CreateAction lib c projectID a =
     do lib c \<lparr> Method = ''POST'',
                 Path = ''/projects/'' @ ProjectID_String projectID @ ''/actions'',
                 ExpectedCode = 201,
                 Input = Some (a\<lparr>car_Tags := Some (elems (car_Tags a)),
                                  car_Steps := Some (elems (car_Steps a))\<rparr>),
                 Output = True, OutputNilIf404 = False \<rparr> \<and>
   (\<forall>req \<in> set (fst (CreateAction lib c projectID a)).
      req_Body req \<noteq> None \<and>
      req_Body req = json_Marshal lib (a\<lparr>car_Tags := Some (elems (car_Tags a)),
                                           car_Steps := Some (elems (car_Steps a))\<rparr>)) \<and>
   (car_Tags a \<noteq> None \<and> car_Steps a \<noteq> None \<longrightarrow>
      a\<lparr>car_Tags := Some (elems (car_Tags a)), car_Steps := Some (elems (car_Steps a))\<rparr> = a) \<and>
   CreateProject plib c p =
     do (project_lib plib) c
        \<lparr> Method = ''POST'', Path = ''/projects/'', ExpectedCode = 201,
          Input = Some (p\<lparr>cpr_AppURLs := Some (elems (cpr_AppURLs p)),
                           cpr_DataAttributes := Some (elems (cpr_DataAttributes p)),
                           cpr_PersonDisplayNameProperties :=
                             Some (elems (cpr_PersonDisplayNameProperties p)),
                           cpr_RecordingDomains := Some (elems (cpr_RecordingDomains p))\<rparr>),
          Output = True, OutputNilIf404 = False \<rparr> \<and>
   (\<forall>req \<in> set (fst (CreateProject plib c p)).
      req_Body req \<noteq> None \<and>
      req_Body req =
        json_Marshal plib (p\<lparr>cpr_AppURLs := Some (elems (cpr_AppURLs p)),
                              cpr_DataAttributes := Some (elems (cpr_DataAttributes p)),
                              cpr_PersonDisplayNameProperties :=
                                Some (elems (cpr_PersonDisplayNameProperties p)),
                              cpr_RecordingDomains := Some (elems (cpr_RecordingDomains p))\<rparr>)) \<and>
   (cpr_AppURLs p \<noteq> None \<and> cpr_DataAttributes p \<noteq> None \<and>
    cpr_PersonDisplayNameProperties p \<noteq> None \<and> cpr_RecordingDomains p \<noteq> None \<longrightarrow>
      p\<lparr>cpr_AppURLs := Some (elems (cpr_AppURLs p)),
        cpr_DataAttributes := Some (elems (cpr_DataAttributes p)),
        cpr_PersonDisplayNameProperties := Some (elems (cpr_PersonDisplayNameProperties p)),
        cpr_RecordingDomains := Some (elems (cpr_RecordingDomains p))\<rparr> = p)"
proof -
  have n: "nilSliceToEmpty v = Some (elems v)" for v :: "'x slice"
    by (cases v) (simp_all add: nilSliceToEmpty_def)
  have body: "\<forall>req \<in> set (fst (do l c r)). req_Body req \<noteq> None \<and> req_Body req = json_Marshal l i"
    if "Input r = Some i" for l :: "('y, 'z) stdlib" and r i
  proof (cases rule: do_requests_cases [of l c r])
    case 1
    then show ?thesis by simp
  next
    case (2 b)
    from 2(1) that obtain j where "json_Marshal l i = Some j" and "b = Some j"
      by (auto simp add: marshalInput_def split: option.splits)
    with 2(3) show ?thesis by (simp add: newRequest_def)
  qed
  have ca: "CreateAction lib c projectID a =
     do lib c \<lparr> Method = ''POST'',
                 Path = ''/projects/'' @ ProjectID_String projectID @ ''/actions'',
                 ExpectedCode = 201,
                 Input = Some (a\<lparr>car_Tags := Some (elems (car_Tags a)),
                                  car_Steps := Some (elems (car_Steps a))\<rparr>),
                 Output = True, OutputNilIf404 = False \<rparr>"
    by (simp add: CreateAction_def n Let_def ProjectID_String_def)
  have cp: "CreateProject plib c p =
     do (project_lib plib) c
        \<lparr> Method = ''POST'', Path = ''/projects/'', ExpectedCode = 201,
          Input = Some (p\<lparr>cpr_AppURLs := Some (elems (cpr_AppURLs p)),
                           cpr_DataAttributes := Some (elems (cpr_DataAttributes p)),
                           cpr_PersonDisplayNameProperties :=
                             Some (elems (cpr_PersonDisplayNameProperties p)),
                           cpr_RecordingDomains := Some (elems (cpr_RecordingDomains p))\<rparr>),
          Output = True, OutputNilIf404 = False \<rparr>"
    by (simp add: CreateProject_def n Let_def)
  have ida: "car_Tags a \<noteq> None \<and> car_Steps a \<noteq> None \<longrightarrow>
      a\<lparr>car_Tags := Some (elems (car_Tags a)), car_Steps := Some (elems (car_Steps a))\<rparr> = a"
    by auto
  have idp: "cpr_AppURLs p \<noteq> None \<and> cpr_DataAttributes p \<noteq> None \<and>
    cpr_PersonDisplayNameProperties p \<noteq> None \<and> cpr_RecordingDomains p \<noteq> None \<longrightarrow>
      p\<lparr>cpr_AppURLs := Some (elems (cpr_AppURLs p)),
        cpr_DataAttributes := Some (elems (cpr_DataAttributes p)),
        cpr_PersonDisplayNameProperties := Some (elems (cpr_PersonDisplayNameProperties p)),
        cpr_RecordingDomains := Some (elems (cpr_RecordingDomains p))\<rparr> = p"
    by auto
  have jm: "json_Marshal (project_lib plib) = json_Marshal plib"
    by (simp add: project_lib_def)
  show ?thesis
    apply (intro conjI)
         apply (rule ca)
        apply (subst ca, rule body, simp)
       apply (rule ida)
      apply (rule cp)
     apply (subst cp, subst jm [symmetric], rule body, simp)
    apply (rule idp)
    done
qed


text \<open>
  The theorem at an action request with nil tags and steps and a project request with
  one non-nil list; the marshaller of the instance tells empty lists from nil ones.
\<close>

theorem create_sends_empty_lists_witness:
  "car_Tags sample_create_action = None \<and> car_Steps sample_create_action = None \<and>
   map req_Body
     (fst (CreateAction
        (sample_lib (\<lambda>a. Some (if car_Tags a = Some [] \<and> car_Steps a = Some []
                                 then ''tags:[],steps:[]'' else ''null'')) (\<lambda>b. None))
        (sample_client 201 ''{}'') 42 sample_create_action)) =
     [Some ''tags:[],steps:[]''] \<and>
   map req_Body
     (fst (CreateProject
        (sample_lib (\<lambda>p. Some (if cpr_AppURLs p = Some [] \<and>
                                    cpr_DataAttributes p = Some [''data-attr''] \<and>
                                    cpr_PersonDisplayNameProperties p = Some [] \<and>
                                    cpr_RecordingDomains p = Some []
                                 then ''lists-present'' else ''null'')) (\<lambda>b. None))
        (sample_client 201 ''{}'') sample_create_project)) =
     [Some ''lists-present''] \<and>
   sample_create_action\<lparr>car_Tags := Some [''t''], car_Steps := Some []\<rparr>
     \<lparr>car_Tags := Some (elems (Some [''t''])), car_Steps := Some (elems (Some []))\<rparr> =
   sample_create_action\<lparr>car_Tags := Some [''t''], car_Steps := Some []\<rparr>"
proof -
  let ?m = "\<lambda>a. Some (if car_Tags a = Some [] \<and> car_Steps a = Some []
                        then ''tags:[],steps:[]'' else ''null'')"
  let ?pm = "\<lambda>p. Some (if cpr_AppURLs p = Some [] \<and>
                                    cpr_DataAttributes p = Some [''data-attr''] \<and>
                                    cpr_PersonDisplayNameProperties p = Some [] \<and>
                                    cpr_RecordingDomains p = Some []
                                 then ''lists-present'' else ''null'')"
  let ?lib = "sample_lib ?m (\<lambda>b. None) :: (CreateActionRequest, Action) stdlib"
  let ?plib = "sample_lib ?pm (\<lambda>b. None) :: (CreateProjectRequest, Project) stdlib"
  let ?c = "sample_client 201 ''{}''"
  let ?a = "sample_create_action"
  let ?a2 = "sample_create_action\<lparr>car_Tags := Some [''t''], car_Steps := Some []\<rparr>"
  let ?p = "sample_create_project"
  note t = create_sends_empty_lists [where lib = ?lib and c = ?c and projectID = 42 and a = ?a
      and plib = ?plib and p = ?p]
  note t2 = create_sends_empty_lists [where lib = ?lib and c = ?c and projectID = 42 and a = ?a2
      and plib = ?plib and p = ?p]
  have nil: "car_Tags ?a = None" "car_Steps ?a = None"
    by (simp_all add: sample_create_action_def)
  have one: "length (fst (CreateAction ?lib ?c 42 ?a)) = 1"
    "length (fst (CreateProject ?plib ?c ?p)) = 1"
    by (simp_all add: CreateAction_def CreateProject_def do_def marshalInput_def sample_lib_def
        sample_client_def project_lib_def Let_def split: sum.split)
  then obtain r pr where r: "fst (CreateAction ?lib ?c 42 ?a) = [r]"
    and pr: "fst (CreateProject ?plib ?c ?p) = [pr]"
    by (auto simp add: length_Suc_conv)
  from t r have "req_Body r = json_Marshal ?lib
      (?a\<lparr>car_Tags := Some (elems (car_Tags ?a)), car_Steps := Some (elems (car_Steps ?a))\<rparr>)"
    by simp
  then have b1: "req_Body r = Some ''tags:[],steps:[]''"
    by (simp add: sample_lib_def nil)
  from t pr have "req_Body pr = json_Marshal ?plib
      (?p\<lparr>cpr_AppURLs := Some (elems (cpr_AppURLs ?p)),
          cpr_DataAttributes := Some (elems (cpr_DataAttributes ?p)),
          cpr_PersonDisplayNameProperties := Some (elems (cpr_PersonDisplayNameProperties ?p)),
          cpr_RecordingDomains := Some (elems (cpr_RecordingDomains ?p))\<rparr>)"
    by simp
  then have b2: "req_Body pr = Some ''lists-present''"
    by (simp add: sample_lib_def sample_create_project_def)
  have "car_Tags ?a2 \<noteq> None \<and> car_Steps ?a2 \<noteq> None" by simp
  with t2 have keep: "?a2\<lparr>car_Tags := Some (elems (car_Tags ?a2)),
      car_Steps := Some (elems (car_Steps ?a2))\<rparr> = ?a2"
    by blast
  from nil r pr b1 b2 keep show ?thesis by simp
qed

section \<open>Facts about import identifiers\<close>

lemma cut_None: "CHR ''/'' \<notin> set s \<Longrightarrow> cut CHR ''/'' s = None"
  by (induction s) auto

lemma cut_first: "sep \<notin> set a \<Longrightarrow> cut sep (a @ sep # b) = Some (a, b)"
  by (induction a) auto

lemma SplitN2_none: "sep \<notin> set s \<Longrightarrow> SplitN2 s sep = [s]"
  by (induction s) (auto simp add: SplitN2_def split: option.splits)

lemma SplitN2_first: "sep \<notin> set a \<Longrightarrow> SplitN2 (a @ sep # b) sep = [a, b]"
  by (simp add: SplitN2_def cut_first)

lemma parse_loop_error_value:
  "parse_loop n s = (v, Some e) \<Longrightarrow> (e = ErrSyntax \<longrightarrow> v = 0) \<and> (e = ErrRange \<longrightarrow> v = maxUint64)"
  by (induction s arbitrary: n) (auto simp add: Let_def split: option.splits if_splits)

lemma ParseUint_error_value:
  assumes "ParseUint s = (v, Some e)"
  shows "e = NumError s ErrSyntax \<and> v = 0 \<or> e = NumError s ErrRange \<and> v = maxUint64"
proof (cases "s = []")
  case True
  with assms show ?thesis by (simp add: ParseUint_def)
next
  case False
  with assms obtain k where p: "parse_loop 0 s = (v, Some k)" and e: "e = NumError s k"
    by (auto simp add: ParseUint_def split: prod.splits)
  from parse_loop_error_value [OF p] e show ?thesis by (cases k) simp_all
qed

lemma parseImportID_no_separator:
  "CHR ''/'' \<notin> set s \<Longrightarrow> parseImportID s = (0, 0, Some ErrNotOfForm)"
  by (simp add: parseImportID_def SplitN2_none)

lemma parseImportID_split:
  "CHR ''/'' \<notin> set a \<Longrightarrow>
   parseImportID (a @ ''/'' @ b) =
     (case ProjectIDFromString a of
        (projectID, Some err) \<Rightarrow> (0, 0, Some (ErrInvalidProjectID err))
      | (projectID, None) \<Rightarrow>
          (case ActionIDFromString b of
             (actionID, Some err) \<Rightarrow> (0, 0, Some (ErrInvalidActionID err))
           | (actionID, None) \<Rightarrow> (projectID, actionID, None)))"
  using SplitN2_first [of "CHR ''/''" a b] by (simp add: parseImportID_def)

lemma sample_ids:
  "ProjectIDFromString ''42'' = (42, None)" "ActionIDFromString ''7'' = (7, None)"
  "ActionIDFromString ''5'' = (5, None)"
  "ActionIDFromString ''7/8'' = (0, Some (NumError ''7/8'' ErrSyntax))"
  by (simp_all add: ProjectIDFromString_def ActionIDFromString_def ParseUint_def digit_of_def
      cutoff_def maxUint64_def lower_def)

section \<open>Claim C5: the import identifier of an action\<close>

text \<open>
  C5. \<open>parseImportID\<close> fails with the form error when the string has no \<open>/\<close>;
  otherwise the part before the first \<open>/\<close> is parsed as the project identifier and
  everything after it as the action identifier, and the failure of either is the
  failure of the whole. A failure is reported by \<open>ImportState\<close> as the diagnostic
  \<open>Invalid import ID\<close>. Importing \<open>42/7\<close> stores the action id \<open>7\<close> and the project id
  \<open>42\<close> with no diagnostic; importing \<open>42\<close> fails with the form error. The operation
  takes no client: it is a function of the string and the state alone.
\<close>

theorem import_id_split_and_parse:
  "(CHR ''/'' \<notin> set s \<longrightarrow> parseImportID s = (0, 0, Some ErrNotOfForm)) \<and>
   (CHR ''/'' \<notin> set a \<longrightarrow>
      parseImportID (a @ ''/'' @ b) =
        (case ProjectIDFromString a of
           (projectID, Some err) \<Rightarrow> (0, 0, Some (ErrInvalidProjectID err))
         | (projectID, None) \<Rightarrow>
             (case ActionIDFromString b of
                (actionID, Some err) \<Rightarrow> (0, 0, Some (ErrInvalidActionID err))
              | (actionID, None) \<Rightarrow> (projectID, actionID, None)))) \<and>
   (snd (snd (parseImportID s)) \<noteq> None \<longrightarrow>
      snd (actionResource_ImportState s state) =
        [ErrorDiagnostic ''Invalid import ID'' (the (snd (snd (parseImportID s))))]) \<and>
   parseImportID ''42/7'' = (42, 7, None) \<and>
   actionResource_ImportState ''42/7'' Map.empty =
     ([''id'' \<mapsto> ''7'', ''project_id'' \<mapsto> ''42''], []) \<and>
   parseImportID ''42'' = (0, 0, Some ErrNotOfForm) \<and>
   snd (actionResource_ImportState ''42'' state) =
     [ErrorDiagnostic ''Invalid import ID'' ErrNotOfForm]"
proof -
  have diag: "snd (snd (parseImportID s)) \<noteq> None \<longrightarrow>
      snd (actionResource_ImportState s state) =
        [ErrorDiagnostic ''Invalid import ID'' (the (snd (snd (parseImportID s))))]"
    by (cases "parseImportID s") (auto simp add: actionResource_ImportState_def HasError_def)
  have ok: "parseImportID ''42/7'' = (42, 7, None)"
    using parseImportID_split [of "''42''" "''7''"] by (simp add: sample_ids)
  have st: "actionResource_ImportState ''42/7'' Map.empty =
     ([''id'' \<mapsto> ''7'', ''project_id'' \<mapsto> ''42''], [])"
    by (simp add: actionResource_ImportState_def ok HasError_def ActionID_String_def
        ProjectID_String_def FormatUint_samples)
  have bad: "parseImportID ''42'' = (0, 0, Some ErrNotOfForm)"
    using parseImportID_no_separator [of "''42''"] by simp
  have badst: "snd (actionResource_ImportState ''42'' state) =
     [ErrorDiagnostic ''Invalid import ID'' ErrNotOfForm]"
    by (simp add: actionResource_ImportState_def bad HasError_def)
  have none: "CHR ''/'' \<notin> set s \<longrightarrow> parseImportID s = (0, 0, Some ErrNotOfForm)"
    using parseImportID_no_separator [of s] by blast
  have halves: "CHR ''/'' \<notin> set a \<longrightarrow>
      parseImportID (a @ ''/'' @ b) =
        (case ProjectIDFromString a of
           (projectID, Some err) \<Rightarrow> (0, 0, Some (ErrInvalidProjectID err))
         | (projectID, None) \<Rightarrow>
             (case ActionIDFromString b of
                (actionID, Some err) \<Rightarrow> (0, 0, Some (ErrInvalidActionID err))
              | (actionID, None) \<Rightarrow> (projectID, actionID, None)))"
    using parseImportID_split [of a b] by (rule impI)
  from none halves diag ok st bad badst show ?thesis by (intro conjI)
qed

text \<open>
  The theorem at \<open>42\<close>, which has no separator, and at \<open>42/7/8\<close>, whose second half
  \<open>7/8\<close> is not a number.
\<close>

theorem import_id_split_and_parse_witness:
  "CHR ''/'' \<notin> set ''42'' \<and> parseImportID ''42'' = (0, 0, Some ErrNotOfForm) \<and>
   parseImportID (''42'' @ ''/'' @ ''7/8'') =
     (0, 0, Some (ErrInvalidActionID (NumError ''7/8'' ErrSyntax))) \<and>
   snd (actionResource_ImportState ''42/7/8'' Map.empty) =
     [ErrorDiagnostic ''Invalid import ID'' (ErrInvalidActionID (NumError ''7/8'' ErrSyntax))]"
proof -
  have n: "CHR ''/'' \<notin> set ''42''" by simp
  from import_id_split_and_parse [of "''42''" "''42''" "''7/8''"] n
  have a: "parseImportID ''42'' = (0, 0, Some ErrNotOfForm)"
    and b: "parseImportID (''42'' @ ''/'' @ ''7/8'') =
        (case ProjectIDFromString ''42'' of
           (projectID, Some err) \<Rightarrow> (0, 0, Some (ErrInvalidProjectID err))
         | (projectID, None) \<Rightarrow>
             (case ActionIDFromString ''7/8'' of
                (actionID, Some err) \<Rightarrow> (0, 0, Some (ErrInvalidActionID err))
              | (actionID, None) \<Rightarrow> (projectID, actionID, None)))"
    by blast+
  from b have b': "parseImportID ''42/7/8'' =
      (0, 0, Some (ErrInvalidActionID (NumError ''7/8'' ErrSyntax)))"
    by (simp add: sample_ids)
  from import_id_split_and_parse [of "''42/7/8''" _ _ Map.empty] b'
  have c: "snd (actionResource_ImportState ''42/7/8'' Map.empty) =
     [ErrorDiagnostic ''Invalid import ID'' (ErrInvalidActionID (NumError ''7/8'' ErrSyntax))]"
    by simp
  from n a b' c show ?thesis by simp
qed

section \<open>Claim C10: what ImportState writes when the identifier does not parse\<close>

lemma ProjectIDFromString_error_value:
  assumes "ProjectIDFromString s = (i, Some e)"
  shows "e = NumError s ErrSyntax \<and> ProjectID_String i = ''0'' \<or>
         e = NumError s ErrRange \<and> ProjectID_String i = ''18446744073709551615''"
proof -
  from assms obtain v where p: "ParseUint s = (v, Some e)" and i: "i = word_of_nat v"
    by (auto simp add: ProjectIDFromString_def split: prod.splits)
  have z: "ProjectID_String (word_of_nat 0) = ''0''"
    by (simp add: ProjectID_String_def FormatUint_samples)
  have m: "ProjectID_String (word_of_nat maxUint64) = ''18446744073709551615''"
    by (simp add: ProjectID_String_def maxUint64_def FormatUint_samples)
  from ParseUint_error_value [OF p] i z m show ?thesis by auto
qed

lemma sample_failures:
  "parseImportID ''abc'' = (0, 0, Some ErrNotOfForm)"
  "ProjectIDFromString ''abc'' = (0, Some (NumError ''abc'' ErrSyntax))"
  "ProjectIDFromString ''18446744073709551616'' =
     (18446744073709551615, Some (NumError ''18446744073709551616'' ErrRange))"
  by (simp_all add: parseImportID_no_separator ProjectIDFromString_def ParseUint_def digit_of_def
      cutoff_def maxUint64_def lower_def)

text \<open>
  C10. When the identifier does not parse, \<open>ImportState\<close> reports the error and does not
  return before its first write. For an action it stores \<open>0\<close> as the \<open>id\<close> and stops
  there, at the check of the diagnostics that follows: \<open>project_id\<close> is not written.
  For a project it stores as \<open>id\<close> the rendering of the value that came with the error:
  \<open>0\<close> for a syntax error and \<open>18446744073709551615\<close> for a range error.
\<close>

theorem import_state_written_on_parse_failure:
  "(snd (snd (parseImportID s)) = Some e \<longrightarrow>
      actionResource_ImportState s state =
        (state(''id'' \<mapsto> ''0''), [ErrorDiagnostic ''Invalid import ID'' e])) \<and>
   (ProjectIDFromString s = (i, Some e') \<longrightarrow>
      projectResource_ImportState s state =
        (state(''id'' \<mapsto> ProjectID_String i), [ErrorDiagnostic ''Invalid project ID'' e']) \<and>
      (e' = NumError s ErrSyntax \<and> ProjectID_String i = ''0'' \<or>
       e' = NumError s ErrRange \<and> ProjectID_String i = ''18446744073709551615''))"
proof -
  have z: "ActionID_String 0 = ''0''" by (simp add: ActionID_String_def FormatUint_samples)
  have fail: "parseImportID s = (p, a, Some e) \<Longrightarrow> p = 0 \<and> a = 0" for p a
    by (auto simp add: parseImportID_def Let_def split: if_splits prod.splits option.splits)
  have act: "snd (snd (parseImportID s)) = Some e \<longrightarrow>
      actionResource_ImportState s state =
        (state(''id'' \<mapsto> ''0''), [ErrorDiagnostic ''Invalid import ID'' e])"
  proof
    assume "snd (snd (parseImportID s)) = Some e"
    then obtain p a where pa: "parseImportID s = (p, a, Some e)"
      by (cases "parseImportID s") auto
    from fail [OF pa] pa show "actionResource_ImportState s state =
        (state(''id'' \<mapsto> ''0''), [ErrorDiagnostic ''Invalid import ID'' e])"
      by (simp add: actionResource_ImportState_def HasError_def z)
  qed
  have prj: "ProjectIDFromString s = (i, Some e') \<longrightarrow>
      projectResource_ImportState s state =
        (state(''id'' \<mapsto> ProjectID_String i), [ErrorDiagnostic ''Invalid project ID'' e']) \<and>
      (e' = NumError s ErrSyntax \<and> ProjectID_String i = ''0'' \<or>
       e' = NumError s ErrRange \<and> ProjectID_String i = ''18446744073709551615'')"
    using ProjectIDFromString_error_value [of s i e']
    by (simp add: projectResource_ImportState_def)
  from act prj show ?thesis by (intro conjI)
qed

text \<open>
  The theorem at \<open>abc\<close> for both resources, and at \<open>18446744073709551616\<close> for a project.
\<close>

theorem import_state_written_on_parse_failure_witness:
  "actionResource_ImportState ''abc'' Map.empty =
     ([''id'' \<mapsto> ''0''], [ErrorDiagnostic ''Invalid import ID'' ErrNotOfForm]) \<and>
   projectResource_ImportState ''abc'' Map.empty =
     ([''id'' \<mapsto> ''0''], [ErrorDiagnostic ''Invalid project ID'' (NumError ''abc'' ErrSyntax)]) \<and>
   projectResource_ImportState ''18446744073709551616'' Map.empty =
     ([''id'' \<mapsto> ''18446744073709551615''],
      [ErrorDiagnostic ''Invalid project ID'' (NumError ''18446744073709551616'' ErrRange)])"
proof -
  have h1: "snd (snd (parseImportID ''abc'')) = Some ErrNotOfForm"
    by (simp add: sample_failures)
  note t1 = import_state_written_on_parse_failure [where s = "''abc''" and e = ErrNotOfForm
      and state = Map.empty and i = 0 and e' = "NumError ''abc'' ErrSyntax"]
  note t2 = import_state_written_on_parse_failure [where s = "''18446744073709551616''"
      and e = ErrNotOfForm and state = Map.empty and i = 18446744073709551615
      and e' = "NumError ''18446744073709551616'' ErrRange"]
  from t1 h1 sample_failures(2)
  have a: "actionResource_ImportState ''abc'' Map.empty =
     ([''id'' \<mapsto> ''0''], [ErrorDiagnostic ''Invalid import ID'' ErrNotOfForm])"
    and b: "projectResource_ImportState ''abc'' Map.empty =
     ([''id'' \<mapsto> ProjectID_String 0],
      [ErrorDiagnostic ''Invalid project ID'' (NumError ''abc'' ErrSyntax)])"
    and b0: "ProjectID_String 0 = ''0''"
    by simp_all
  from t2 sample_failures(3)
  have c: "projectResource_ImportState ''18446744073709551616'' Map.empty =
     ([''id'' \<mapsto> ProjectID_String 18446744073709551615],
      [ErrorDiagnostic ''Invalid project ID'' (NumError ''18446744073709551616'' ErrRange)])"
    and c0: "ProjectID_String 18446744073709551615 = ''18446744073709551615''"
    by simp_all
  from a b b0 c c0 show ?thesis by simp
qed

text \<open>
  The claim as first stated has \<open>project_id\<close> written as \<open>0\<close> for an action and the
  \<open>id\<close> always \<open>0\<close>; at \<open>abc\<close> the action's \<open>project_id\<close> stays unwritten, and at
  \<open>18446744073709551616\<close> the project's \<open>id\<close> is \<open>18446744073709551615\<close>.
\<close>

theorem import_state_project_id_not_written:
  "fst (actionResource_ImportState ''abc'' Map.empty) ''project_id'' = None \<and>
   fst (actionResource_ImportState ''abc'' Map.empty) ''id'' = Some ''0'' \<and>
   fst (projectResource_ImportState ''18446744073709551616'' Map.empty) ''id'' =
     Some ''18446744073709551615''"
  by (simp add: actionResource_ImportState_def projectResource_ImportState_def sample_failures
      HasError_def ActionID_String_def ProjectID_String_def FormatUint_samples)

section \<open>Facts about the partition and the merge of steps\<close>

lemma elems_append1 [simp]: "elems (append1 s x) = elems s @ [x]"
  by (simp add: append1_def)

lemma elems_foldl_append1:
  "elems (foldl (\<lambda>steps ev. append1 steps (f ev)) s xs) = elems s @ map f xs"
  by (induction xs arbitrary: s) simp_all

lemma partition_steps_elems:
  "partition_steps steps (c, p, a) = (c', p', a') \<Longrightarrow>
   map customEventStep (elems c') @ map pageViewStep (elems p') @ map autocaptureStep (elems a') =
   (map customEventStep (elems c) @ map kept_fields (filter (\<lambda>s. step_rank s = 0) steps)) @
   (map pageViewStep (elems p) @ map kept_fields (filter (\<lambda>s. step_rank s = 1) steps)) @
   (map autocaptureStep (elems a) @ map kept_fields (filter (\<lambda>s. step_rank s = 2) steps))"
proof (induction steps arbitrary: c p a)
  case Nil
  then show ?case by simp
next
  case (Cons ev rest)
  show ?case
  proof (cases "step_Event ev = ''$autocapture''")
    case True
    with Cons.prems Cons.IH show ?thesis
      by (simp add: step_rank_def kept_fields_def autocaptureStep_def)
  next
    case False
    note na = this
    show ?thesis
    proof (cases "step_Event ev = ''$pageview''")
      case True
      with na Cons.prems Cons.IH show ?thesis
        by (simp add: step_rank_def kept_fields_def pageViewStep_def)
    next
      case False
      with na Cons.prems Cons.IH show ?thesis
        by (simp add: step_rank_def kept_fields_def customEventStep_def)
    qed
  qed
qed

lemma step_rank_cases: "step_rank s = 0 \<or> step_rank s = 1 \<or> step_rank s = 2"
  by (simp add: step_rank_def)

lemma mset_by_rank:
  "mset (filter (\<lambda>s. step_rank s = 0) steps @ filter (\<lambda>s. step_rank s = 1) steps @
         filter (\<lambda>s. step_rank s = 2) steps) = mset steps"
proof (induction steps)
  case Nil
  show ?case by simp
next
  case (Cons s steps)
  then show ?case using step_rank_cases [of s] by auto
qed

lemma sorted_by_rank:
  "sorted (map step_rank steps) \<Longrightarrow>
   filter (\<lambda>s. step_rank s = 0) steps @ filter (\<lambda>s. step_rank s = 1) steps @
   filter (\<lambda>s. step_rank s = 2) steps = steps"
proof (induction steps)
  case Nil
  show ?case by simp
next
  case (Cons s steps)
  from Cons.prems have le: "\<forall>t \<in> set steps. step_rank s \<le> step_rank t"
    and srt: "sorted (map step_rank steps)" by simp_all
  note IH = Cons.IH [OF srt]
  from step_rank_cases [of s] show ?case
  proof (elim disjE)
    assume "step_rank s = 0"
    with IH show ?thesis by simp
  next
    assume r: "step_rank s = 1"
    with le have "filter (\<lambda>s. step_rank s = 0) steps = []"
      by (auto simp add: filter_empty_conv)
    with r IH show ?thesis by simp
  next
    assume r: "step_rank s = 2"
    with le have "filter (\<lambda>s. step_rank s = 0) steps = []"
      "filter (\<lambda>s. step_rank s = 1) steps = []"
      by (auto simp add: filter_empty_conv)
    with r IH show ?thesis by simp
  qed
qed

lemma ActionID_round_trip: "ActionIDFromString (ActionID_String i) = (i, None)"
  by (simp add: ActionIDFromString_def ActionID_String_def word_of_nat_FormatUint)

lemma steps_round_trip_eq:
  assumes "ProjectIDFromString (ValueString (arm_ProjectID model)) = (projectID, None)"
  shows "steps_round_trip model apiAction =
     map kept_fields
       (filter (\<lambda>s. step_rank s = 0) (elems (act_Steps apiAction)) @
        filter (\<lambda>s. step_rank s = 1) (elems (act_Steps apiAction)) @
        filter (\<lambda>s. step_rank s = 2) (elems (act_Steps apiAction)))"
proof -
  obtain c p a where part:
    "partition_steps (elems (act_Steps apiAction)) (None, None, None) = (c, p, a)"
    by (cases "partition_steps (elems (act_Steps apiAction)) (None, None, None)") auto
  have "steps_round_trip model apiAction =
      map customEventStep (elems c) @ map pageViewStep (elems p) @ map autocaptureStep (elems a)"
    using assms
    by (simp add: steps_round_trip_def actionFromModel_def updateActionModel_def part
        ValueString_def StringValue_def ListValueFrom_def ElementsAs_def ActionID_round_trip
        zero_Action_def elems_foldl_append1 Let_def)
  with partition_steps_elems [OF part] show ?thesis by simp
qed

section \<open>Claim C1: steps through the local model and back\<close>

text \<open>
  C1. Let the model's project identifier parse. Partitioning the steps of an API action
  into the three local lists (\<open>$autocapture\<close> exactly, \<open>$pageview\<close> exactly, anything
  else a custom event) and flattening them again, custom events first, then page views,
  then autocaptures, gives a permutation of the original steps, each reduced to the
  fields its match object keeps. When the original list follows the ordering convention
  the result is that list in the same order, and when moreover every step carries only
  the fields of its kind the result is the original list itself. Step ids and event
  names always survive.
\<close>

theorem steps_round_trip_up_to_kept_fields:
  "ProjectIDFromString (ValueString (arm_ProjectID model)) = (projectID, None) \<longrightarrow>
     mset (steps_round_trip model apiAction) =
       mset (map kept_fields (elems (act_Steps apiAction))) \<and>
     (follows_convention (elems (act_Steps apiAction)) \<longrightarrow>
        steps_round_trip model apiAction = map kept_fields (elems (act_Steps apiAction))) \<and>
     (follows_convention (elems (act_Steps apiAction)) \<and>
      (\<forall>s \<in> set (elems (act_Steps apiAction)). kept_fields s = s) \<longrightarrow>
        steps_round_trip model apiAction = elems (act_Steps apiAction)) \<and>
     map step_ID (steps_round_trip model apiAction) =
       map step_ID (filter (\<lambda>s. step_rank s = 0) (elems (act_Steps apiAction)) @
                    filter (\<lambda>s. step_rank s = 1) (elems (act_Steps apiAction)) @
                    filter (\<lambda>s. step_rank s = 2) (elems (act_Steps apiAction))) \<and>
     map step_Event (steps_round_trip model apiAction) =
       map step_Event (filter (\<lambda>s. step_rank s = 0) (elems (act_Steps apiAction)) @
                       filter (\<lambda>s. step_rank s = 1) (elems (act_Steps apiAction)) @
                       filter (\<lambda>s. step_rank s = 2) (elems (act_Steps apiAction)))"
proof
  assume pid: "ProjectIDFromString (ValueString (arm_ProjectID model)) = (projectID, None)"
  let ?steps = "elems (act_Steps apiAction)"
  let ?grouped = "filter (\<lambda>s. step_rank s = 0) ?steps @ filter (\<lambda>s. step_rank s = 1) ?steps @
                  filter (\<lambda>s. step_rank s = 2) ?steps"
  note rt = steps_round_trip_eq [OF pid, of apiAction]
  have m: "mset (steps_round_trip model apiAction) = mset (map kept_fields ?steps)"
    using mset_by_rank [of ?steps] by (simp only: rt mset_map)
  have o: "follows_convention ?steps \<longrightarrow> steps_round_trip model apiAction = map kept_fields ?steps"
    using sorted_by_rank [of ?steps] by (simp add: rt follows_convention_def)
  have e: "follows_convention ?steps \<and> (\<forall>s \<in> set ?steps. kept_fields s = s) \<longrightarrow>
      steps_round_trip model apiAction = ?steps"
  proof
    assume a: "follows_convention ?steps \<and> (\<forall>s \<in> set ?steps. kept_fields s = s)"
    then have "map kept_fields ?steps = ?steps" by (simp add: map_idI)
    with o a show "steps_round_trip model apiAction = ?steps" by simp
  qed
  have k: "step_ID (kept_fields s) = step_ID s" "step_Event (kept_fields s) = step_Event s" for s
    by (simp_all add: kept_fields_def)
  have i: "map step_ID (steps_round_trip model apiAction) = map step_ID ?grouped"
    "map step_Event (steps_round_trip model apiAction) = map step_Event ?grouped"
    by (simp_all only: rt map_map o_def k)
  from m o e i show "mset (steps_round_trip model apiAction) = mset (map kept_fields ?steps) \<and>
     (follows_convention ?steps \<longrightarrow> steps_round_trip model apiAction = map kept_fields ?steps) \<and>
     (follows_convention ?steps \<and> (\<forall>s \<in> set ?steps. kept_fields s = s) \<longrightarrow>
        steps_round_trip model apiAction = ?steps) \<and>
     map step_ID (steps_round_trip model apiAction) = map step_ID ?grouped \<and>
     map step_Event (steps_round_trip model apiAction) = map step_Event ?grouped"
    by (intro conjI)
qed

lemma sample_model_project: "ProjectIDFromString (ValueString (arm_ProjectID sample_model)) = (42, None)"
  by (simp add: sample_model_def ValueString_def sample_ids)

text \<open>
  The theorem at a custom event, a page view and an autocapture, in that order, each
  with the fields of its kind only.
\<close>

theorem steps_round_trip_up_to_kept_fields_witness:
  "ProjectIDFromString (ValueString (arm_ProjectID sample_model)) = (42, None) \<and>
   follows_convention [sample_custom_step, sample_pageview_step, sample_autocapture_step] \<and>
   kept_fields sample_custom_step = sample_custom_step \<and>
   kept_fields sample_pageview_step = sample_pageview_step \<and>
   kept_fields sample_autocapture_step = sample_autocapture_step \<and>
   steps_round_trip sample_model
     (sample_action [sample_custom_step, sample_pageview_step, sample_autocapture_step]) =
     [sample_custom_step, sample_pageview_step, sample_autocapture_step]"
proof -
  let ?steps = "[sample_custom_step, sample_pageview_step, sample_autocapture_step]"
  have st: "elems (act_Steps (sample_action ?steps)) = ?steps"
    by (simp add: sample_action_def)
  have conv: "follows_convention ?steps"
    by (simp add: follows_convention_def step_rank_def sample_custom_step_def
        sample_pageview_step_def sample_autocapture_step_def)
  have kept: "kept_fields sample_custom_step = sample_custom_step"
    "kept_fields sample_pageview_step = sample_pageview_step"
    "kept_fields sample_autocapture_step = sample_autocapture_step"
    by (simp_all add: kept_fields_def sample_custom_step_def sample_pageview_step_def
        sample_autocapture_step_def)
  from steps_round_trip_up_to_kept_fields [of sample_model 42 "sample_action ?steps"]
    sample_model_project conv kept
  have "steps_round_trip sample_model (sample_action ?steps) = ?steps"
    by (simp add: st)
  with sample_model_project conv kept show ?thesis by simp
qed

text \<open>
  The claim as first stated, with every field of every step surviving, fails at a
  custom event that carries a URL matcher: the list follows the convention, and the
  step comes back without the matcher.
\<close>

theorem custom_event_loses_url_matcher:
  "ProjectIDFromString (ValueString (arm_ProjectID sample_model)) = (42, None) \<and>
   follows_convention [sample_custom_step\<lparr>step_URL := ''/signup'', step_URLMatching := ''exact''\<rparr>] \<and>
   steps_round_trip sample_model
     (sample_action [sample_custom_step\<lparr>step_URL := ''/signup'', step_URLMatching := ''exact''\<rparr>]) =
     [sample_custom_step] \<and>
   mset (steps_round_trip sample_model
     (sample_action [sample_custom_step\<lparr>step_URL := ''/signup'', step_URLMatching := ''exact''\<rparr>])) \<noteq>
     mset [sample_custom_step\<lparr>step_URL := ''/signup'', step_URLMatching := ''exact''\<rparr>]"
proof -
  let ?s = "sample_custom_step\<lparr>step_URL := ''/signup'', step_URLMatching := ''exact''\<rparr>"
  have conv: "follows_convention [?s]" by (simp add: follows_convention_def)
  have r: "step_rank ?s = 0" by (simp add: step_rank_def sample_custom_step_def)
  have k: "kept_fields ?s = sample_custom_step"
    by (simp add: kept_fields_def sample_custom_step_def)
  have rt: "steps_round_trip sample_model (sample_action [?s]) = [sample_custom_step]"
    using steps_round_trip_eq [OF sample_model_project, of "sample_action [?s]"]
    by (simp add: sample_action_def r k)
  have ne: "sample_custom_step \<noteq> ?s" by (simp add: sample_custom_step_def)
  from sample_model_project conv rt ne show ?thesis by simp
qed

section \<open>Facts about the delete of an action\<close>





section \<open>Claim C6: deleting an action is one PATCH with the deleted flag\<close>



end
